theory Spec2Isabelle
  imports Main "HOL-Library.AList" "HOL-Library.Char_ord" "HOL-Library.List_Lexorder"
begin

section \<open>JavaScript values\<close>

text \<open>
  The coordinator of \<^verbatim>\<open>src/utils/websocket.js\<close> builds plain JavaScript objects,
  sends them through Socket.IO and stores them, as JSON, in the Redis cache of
  \<^verbatim>\<open>src/utils/cache.js\<close>. Objects are association lists in insertion order,
  arrays are lists, and a JavaScript \<^verbatim>\<open>Map\<close> is an association list with
  \<open>AList.update\<close> for \<^verbatim>\<open>set\<close>, \<open>AList.delete\<close> for \<^verbatim>\<open>delete\<close>,
  \<open>map_of\<close> for \<^verbatim>\<open>get\<close> and \<open>length\<close> for \<^verbatim>\<open>size\<close>. A JavaScript
  \<^verbatim>\<open>Set\<close> is a list without repetitions, in insertion order.
  Strings are lists of 8-bit characters; ids of users, rooms and sockets are strings.
\<close>

datatype json =
    JNull
  | JBool bool
  | JNum int
  | JStr string
  | JArr "json list"
  | JObj "(string \<times> json) list"

text \<open>Truthiness, as used by \<^verbatim>\<open>value || fallback\<close> and \<^verbatim>\<open>!value\<close>.\<close>

fun truthy :: "json \<Rightarrow> bool" where
  "truthy JNull = False"
| "truthy (JBool b) = b"
| "truthy (JNum n) = (n \<noteq> 0)"
| "truthy (JStr s) = (s \<noteq> [])"
| "truthy (JArr xs) = True"
| "truthy (JObj fs) = True"

text \<open>\<^verbatim>\<open>v || d\<close>\<close>

definition or_else :: "json \<Rightarrow> json \<Rightarrow> json" where
  "or_else v d = (if truthy v then v else d)"

text \<open>Property read \<^verbatim>\<open>obj.name\<close> on a truthy value: \<open>None\<close> is \<^verbatim>\<open>undefined\<close>.\<close>

fun field :: "json \<Rightarrow> string \<Rightarrow> json option" where
  "field (JObj fs) name = map_of fs name"
| "field v name = None"

text \<open>\<^verbatim>\<open>Set.prototype.add\<close> and \<^verbatim>\<open>Set.prototype.delete\<close> on an insertion-ordered set.\<close>

definition set_add :: "'a \<Rightarrow> 'a list \<Rightarrow> 'a list" where
  "set_add x xs = (if x \<in> set xs then xs else xs @ [x])"

definition set_delete :: "'a \<Rightarrow> 'a list \<Rightarrow> 'a list" where
  "set_delete x xs = filter (\<lambda>y. y \<noteq> x) xs"

text \<open>\<^verbatim>\<open>Array.prototype.slice(-n)\<close>: the last \<open>n\<close> elements.\<close>

definition slice_last :: "nat \<Rightarrow> 'a list \<Rightarrow> 'a list" where
  "slice_last n xs = drop (length xs - n) xs"

text \<open>
  \<^verbatim>\<open>String.prototype.trim\<close>: white space of the 8-bit range (tab, line feed,
  vertical tab, form feed, carriage return, space, no-break space) is removed at both ends.
\<close>

definition is_space :: "char \<Rightarrow> bool" where
  "is_space c = (of_char c \<in> {9, 10, 11, 12, 13, 32, 160 :: nat})"

definition trim :: "string \<Rightarrow> string" where
  "trim s = rev (dropWhile is_space (rev (dropWhile is_space s)))"

text \<open>\<^verbatim>\<open>String.prototype.includes\<close>\<close>

fun starts_with :: "string \<Rightarrow> string \<Rightarrow> bool" where
  "starts_with [] s = True"
| "starts_with (p # ps) [] = False"
| "starts_with (p # ps) (c # cs) = (p = c \<and> starts_with ps cs)"

fun str_includes :: "string \<Rightarrow> string \<Rightarrow> bool" where
  "str_includes [] p = (p = [])"
| "str_includes (c # cs) p = (starts_with p (c # cs) \<or> str_includes cs p)"

text \<open>Decimal rendering of a non-negative integer, as a template literal does.\<close>

definition digit :: "nat \<Rightarrow> char" where
  "digit d = ''0123456789'' ! d"

fun decimal :: "nat \<Rightarrow> string" where
  "decimal n = (if n < 10 then [digit n] else decimal (n div 10) @ [digit (n mod 10)])"

declare decimal.simps [simp del]

section \<open>The environment of one handler invocation\<close>

text \<open>
  What a handler reads from outside the coordinator: the clock (\<^verbatim>\<open>Date.now()\<close>
  in milliseconds, and \<^verbatim>\<open>new Date().toISOString()\<close>), the string
  \<^verbatim>\<open>Math.random().toString(36)\<close>, and the translation function
  \<^verbatim>\<open>i18nManager.translate(key, params, locale)\<close>, whose result is placed in
  outgoing payloads as it is. One invocation sees one reading of each.
  The translation function's own memoisation under cache keys \<^verbatim>\<open>i18n:...\<close>
  is outside this model.
\<close>

record env =
  now :: nat
  isoNow :: string
  random36 :: string
  translate :: "string \<Rightarrow> (string \<times> json) list \<Rightarrow> string \<Rightarrow> json"

datatype level = Info | Error

datatype js_error = TypeError

datatype effect =
    Log level string
  | SocketEmit string string json
  | SocketToEmit string string string json
  | IoToEmit string string json
  | UnhandledRejection js_error

text \<open>
  \<open>SocketEmit sid event payload\<close> is \<^verbatim>\<open>socket.emit(event, payload)\<close> on the
  socket with id \<open>sid\<close>; \<open>SocketToEmit sid room event payload\<close> is
  \<^verbatim>\<open>socket.to(room).emit(event, payload)\<close> (everyone in the room but the socket
  itself); \<open>IoToEmit room event payload\<close> is \<^verbatim>\<open>io.to(room).emit(event, payload)\<close>.
  \<open>UnhandledRejection err\<close>: an \<^verbatim>\<open>async\<close> function that nobody awaits and that
  has no \<^verbatim>\<open>catch\<close> rejected with \<open>err\<close>; what the process does with it is not
  part of this model.
\<close>

section \<open>CacheManager (cache.js)\<close>

text \<open>
  \<open>client_present\<close>: \<^verbatim>\<open>this.client\<close> is set; \<open>isConnected\<close>: the flag kept by the
  connection events; \<open>command_fails\<close>: the Redis client rejects the command (the
  \<^verbatim>\<open>catch\<close> branch of each method); \<open>redis\<close>: the keyspace, each value with the
  time-to-live in seconds it was written with (\<open>None\<close> for a plain \<^verbatim>\<open>set\<close>).
  Expiry of keys over time is not modelled.

  A value of \<^verbatim>\<open>typeof value === 'object'\<close> is written as its JSON text, a boolean or a
  number as the text the Redis client makes of it, which is its JSON text too: such an
  entry is \<open>Encoded v\<close>, and \<^verbatim>\<open>JSON.parse\<close> gives \<open>v\<close> back. A string is written
  as it is: the entry is \<open>Raw s\<close>, and what \<^verbatim>\<open>JSON.parse\<close> makes of the text \<open>s\<close> is
  \<open>json_parse c s\<close>, \<open>None\<close> when it raises.
\<close>

datatype stored = Encoded json | Raw string

record cache_state =
  client_present :: bool
  isConnected :: bool
  command_fails :: bool
  redis :: "string \<Rightarrow> (stored \<times> nat option) option"
  json_parse :: "string \<Rightarrow> json option"

definition isReady :: "cache_state \<Rightarrow> bool" where
  "isReady c = (client_present c \<and> isConnected c)"

text \<open>
  \<^verbatim>\<open>cache.js\<close> imports \<^verbatim>\<open>logWarning\<close> from \<^verbatim>\<open>logger.js\<close>, which exports
  \<^verbatim>\<open>logWarn\<close> and no \<^verbatim>\<open>logWarning\<close>: the name is \<^verbatim>\<open>undefined\<close>, and calling it
  raises a \<^verbatim>\<open>TypeError\<close>. In \<^verbatim>\<open>get\<close> and \<^verbatim>\<open>set\<close> the branch for a cache that
  is not ready calls it outside the \<^verbatim>\<open>try\<close>, so both methods reject there. In
  \<^verbatim>\<open>get\<close> the handler of a failed \<^verbatim>\<open>JSON.parse\<close> calls it inside the outer
  \<^verbatim>\<open>try\<close>, whose \<^verbatim>\<open>catch\<close> logs the error and returns \<^verbatim>\<open>null\<close>.
\<close>

definition cache_get :: "cache_state \<Rightarrow> string \<Rightarrow> effect list \<times> (js_error + json)" where
  "cache_get c key =
     (if \<not> isReady c then ([], Inl TypeError)
      else if command_fails c then ([Log Error ''Cache get error''], Inr JNull)
      else (case redis c key of
              None \<Rightarrow> ([], Inr JNull)
            | Some (Encoded v, ttl) \<Rightarrow> ([], Inr v)
            | Some (Raw txt, ttl) \<Rightarrow>
                (case json_parse c txt of
                   Some v \<Rightarrow> ([], Inr v)
                 | None \<Rightarrow> ([Log Error ''Cache get error''], Inr JNull))))"

fun serialize :: "json \<Rightarrow> stored" where
  "serialize (JStr txt) = Raw txt"
| "serialize v = Encoded v"

definition cache_set ::
  "cache_state \<Rightarrow> string \<Rightarrow> json \<Rightarrow> nat \<Rightarrow> cache_state \<times> effect list \<times> (js_error + bool)" where
  "cache_set c key v ttl =
     (if \<not> isReady c then (c, [], Inl TypeError)
      else if command_fails c then (c, [Log Error ''Cache set error''], Inr False)
      else if ttl > 0
      then (c\<lparr>redis := (redis c)(key \<mapsto> (serialize v, Some ttl))\<rparr>, [], Inr True)
      else (c\<lparr>redis := (redis c)(key \<mapsto> (serialize v, None))\<rparr>, [], Inr True))"

section \<open>WebSocketManager (websocket.js)\<close>

text \<open>
  A socket as the authentication middleware leaves it: \<^verbatim>\<open>socket.id\<close>,
  \<^verbatim>\<open>socket.userId\<close>, \<^verbatim>\<open>socket.userRole\<close>, \<^verbatim>\<open>socket.userLanguage\<close>.
  The rooms of a socket (\<^verbatim>\<open>socket.rooms\<close>) belong to the Socket.IO adapter and
  change with \<^verbatim>\<open>socket.join\<close> and \<^verbatim>\<open>socket.leave\<close>; they are the component
  \<open>socketRooms\<close> of the state, indexed by socket id.
\<close>

record socket =
  socket_id :: string
  userId :: string
  userRole :: string
  userLanguage :: string

record stats =
  totalConnections :: nat
  activeUsers :: nat
  totalRooms :: nat
  messagesCount :: nat

record manager =
  connectedUsers :: "(string \<times> socket) list"
  userSockets :: "(string \<times> string) list"
  rooms :: "(string \<times> string list) list"
  activeRooms :: "(string \<times> json) list"
  messageHistory :: "(string \<times> json list) list"
  connectionStats :: stats
  cache :: cache_state
  socketRooms :: "string \<Rightarrow> string list"

text \<open>The state the constructor builds, over a cache and an adapter.\<close>

definition constructor :: "cache_state \<Rightarrow> (string \<Rightarrow> string list) \<Rightarrow> manager" where
  "constructor c sr =
     \<lparr>connectedUsers = [], userSockets = [], rooms = [], activeRooms = [], messageHistory = [],
      connectionStats = \<lparr>totalConnections = 0, activeUsers = 0, totalRooms = 0, messagesCount = 0\<rparr>,
      cache = c, socketRooms = sr\<rparr>"

definition socket_join :: "string \<Rightarrow> string \<Rightarrow> manager \<Rightarrow> manager" where
  "socket_join sid room s = s\<lparr>socketRooms := (socketRooms s)(sid := set_add room (socketRooms s sid))\<rparr>"

definition socket_leave :: "string \<Rightarrow> string \<Rightarrow> manager \<Rightarrow> manager" where
  "socket_leave sid room s = s\<lparr>socketRooms := (socketRooms s)(sid := set_delete room (socketRooms s sid))\<rparr>"

subsection \<open>Helper methods\<close>

definition generateMessageId :: "env \<Rightarrow> string" where
  "generateMessageId e = ''msg_'' @ decimal (now e) @ ''_'' @ take 9 (drop 2 (random36 e))"

definition validateRoomAccess :: "string \<Rightarrow> string \<Rightarrow> json option \<Rightarrow> bool \<times> json option" where
  "validateRoomAccess uid roomId password = (True, None)"

definition broadcastToRoom :: "env \<Rightarrow> string \<Rightarrow> string \<Rightarrow> (string \<times> json) list \<Rightarrow> effect list" where
  "broadcastToRoom e roomId event data =
     [IoToEmit roomId event (JObj (AList.update ''timestamp'' (JStr (isoNow e)) data))]"

datatype room_action = Joined | Left

fun action_name :: "room_action \<Rightarrow> string" where
  "action_name Joined = ''joined''"
| "action_name Left = ''left''"

text \<open>
  \<^verbatim>\<open>metadata.members\<close> after the membership branch of \<^verbatim>\<open>updateRoomMetadata\<close>,
  or the \<^verbatim>\<open>TypeError\<close> of calling \<^verbatim>\<open>includes\<close>, \<^verbatim>\<open>push\<close> or
  \<^verbatim>\<open>filter\<close> on a value that has no such method.
\<close>

fun update_members :: "room_action \<Rightarrow> string \<Rightarrow> json option \<Rightarrow> js_error + json" where
  "update_members Joined uid (Some (JArr ms)) =
     (if JStr uid \<in> set ms then Inr (JArr ms) else Inr (JArr (ms @ [JStr uid])))"
| "update_members Joined uid (Some (JStr m)) =
     (if str_includes m uid then Inr (JStr m) else Inl TypeError)"
| "update_members Left uid (Some (JArr ms)) = Inr (JArr (filter (\<lambda>i. i \<noteq> JStr uid) ms))"
| "update_members a uid v = Inl TypeError"

definition updateRoomMetadata ::
  "env \<Rightarrow> cache_state \<Rightarrow> string \<Rightarrow> string \<Rightarrow> room_action \<Rightarrow> cache_state \<times> effect list \<times> (js_error + unit)" where
  "updateRoomMetadata e c roomId uid action =
     (let key = ''room:'' @ roomId @ '':metadata''
      in case cache_get c key of
           (l1, Inl err) \<Rightarrow> (c, l1, Inl err)
         | (l1, Inr v) \<Rightarrow>
             (let metadata = or_else v (JObj [(''members'', JArr []), (''activity'', JArr [])])
              in case update_members action uid (field metadata ''members'') of
                   Inl err \<Rightarrow> (c, l1, Inl err)
                 | Inr members \<Rightarrow>
                     (case metadata of
                        JObj fs \<Rightarrow>
                          (case map_of fs ''activity'' of
                             Some (JArr act) \<Rightarrow>
                               (let act1 = act @ [JObj [(''userId'', JStr uid),
                                                        (''action'', JStr (action_name action)),
                                                        (''timestamp'', JStr (isoNow e))]];
                                    act2 = (if length act1 > 100 then slice_last 100 act1 else act1);
                                    fs1 = AList.update ''activity'' (JArr act2)
                                            (AList.update ''members'' members fs)
                                in case cache_set c key (JObj fs1) 86400 of
                                     (c1, l2, Inl err) \<Rightarrow> (c1, l1 @ l2, Inl err)
                                   | (c1, l2, Inr ok) \<Rightarrow> (c1, l1 @ l2, Inr ()))
                           | _ \<Rightarrow> (c, l1, Inl TypeError))
                      | _ \<Rightarrow> (c, l1, Inl TypeError))))"

text \<open>
  The three bounded stores share one shape: read the array under the key
  (\<^verbatim>\<open>(await cache.get(key)) || []\<close>), \<^verbatim>\<open>push\<close>, \<^verbatim>\<open>shift\<close> once when the
  length exceeds the bound, write back with the time-to-live. \<^verbatim>\<open>push\<close> on a
  truthy value that is no array raises, and a rejection of \<^verbatim>\<open>cache.get\<close> or
  \<^verbatim>\<open>cache.set\<close> is the rejection of the store function, which has no \<^verbatim>\<open>catch\<close>.
\<close>

definition push_bounded ::
  "cache_state \<Rightarrow> string \<Rightarrow> json \<Rightarrow> nat \<Rightarrow> nat \<Rightarrow> cache_state \<times> effect list \<times> (js_error + unit)" where
  "push_bounded c key item bound ttl =
     (case cache_get c key of
        (l1, Inl err) \<Rightarrow> (c, l1, Inl err)
      | (l1, Inr v) \<Rightarrow>
          (case or_else v (JArr []) of
             JArr ms \<Rightarrow>
               (let ms1 = ms @ [item];
                    ms2 = (if length ms1 > bound then tl ms1 else ms1)
                in case cache_set c key (JArr ms2) ttl of
                     (c1, l2, Inl err) \<Rightarrow> (c1, l1 @ l2, Inl err)
                   | (c1, l2, Inr ok) \<Rightarrow> (c1, l1 @ l2, Inr ()))
           | _ \<Rightarrow> (c, l1, Inl TypeError)))"

definition storeMessage ::
  "cache_state \<Rightarrow> string \<Rightarrow> json \<Rightarrow> cache_state \<times> effect list \<times> (js_error + unit)" where
  "storeMessage c roomId messageObj =
     push_bounded c (''room:'' @ roomId @ '':messages'') messageObj 50 3600"

definition storePrivateMessage ::
  "cache_state \<Rightarrow> string \<Rightarrow> json \<Rightarrow> cache_state \<times> effect list \<times> (js_error + unit)" where
  "storePrivateMessage c toUserId messageObj =
     push_bounded c (''private_messages:'' @ toUserId) messageObj 100 (86400 * 7)"

definition storeOfflineNotification ::
  "env \<Rightarrow> cache_state \<Rightarrow> string \<Rightarrow> (string \<times> json) list \<Rightarrow> cache_state \<times> effect list \<times> (js_error + unit)" where
  "storeOfflineNotification e c uid notification =
     push_bounded c (''offline_notifications:'' @ uid)
       (JObj (AList.update ''timestamp'' (JStr (isoNow e)) notification)) 50 (86400 * 3)"

text \<open>
  \<^verbatim>\<open>sendMessageHistory\<close>: \<^verbatim>\<open>slice(-20)\<close> exists on arrays and on strings.
\<close>

definition sendMessageHistory ::
  "env \<Rightarrow> cache_state \<Rightarrow> socket \<Rightarrow> string \<Rightarrow> effect list \<times> (js_error + unit)" where
  "sendMessageHistory e c sock roomId =
     (let emit = (\<lambda>sliced. SocketEmit (socket_id sock) ''message_history''
                    (JObj [(''roomId'', JStr roomId), (''messages'', sliced),
                           (''timestamp'', JStr (isoNow e))]))
      in case cache_get c (''room:'' @ roomId @ '':messages'') of
           (l1, Inl err) \<Rightarrow> (l1, Inl err)
         | (l1, Inr v) \<Rightarrow>
             (case or_else v (JArr []) of
                JArr ms \<Rightarrow> (l1 @ [emit (JArr (slice_last 20 ms))], Inr ())
              | JStr str \<Rightarrow> (l1 @ [emit (JStr (slice_last 20 str))], Inr ())
              | _ \<Rightarrow> (l1, Inl TypeError)))"

text \<open>
  \<^verbatim>\<open>updateUserOnlineStatus\<close> awaits \<^verbatim>\<open>cache.set\<close> before it broadcasts: when the
  write rejects, the function rejects and the broadcast is not reached.
\<close>

definition updateUserOnlineStatus ::
  "env \<Rightarrow> manager \<Rightarrow> string \<Rightarrow> bool \<Rightarrow> manager \<times> effect list \<times> (js_error + unit)" where
  "updateUserOnlineStatus e s uid isOnline =
     (case cache_set (cache s) (''user:'' @ uid @ '':online'') (JBool isOnline) 300 of
        (c1, l1, Inl err) \<Rightarrow> (s\<lparr>cache := c1\<rparr>, l1, Inl err)
      | (c1, l1, Inr ok) \<Rightarrow>
          (s\<lparr>cache := c1\<rparr>,
           l1 @ broadcastToRoom e (''user:'' @ uid) ''user_status_changed''
                  [(''userId'', JStr uid), (''online'', JBool isOnline),
                   (''lastSeen'', JStr (isoNow e))],
           Inr ()))"

definition sendUserActiveRooms :: "env \<Rightarrow> socket \<Rightarrow> effect list" where
  "sendUserActiveRooms e sock =
     [SocketEmit (socket_id sock) ''active_rooms''
        (JObj [(''rooms'', JArr []), (''timestamp'', JStr (isoNow e))])]"

text \<open>
  \<^verbatim>\<open>cleanupEmptyRooms\<close>: the loop over the entries of \<^verbatim>\<open>this.rooms\<close>. Deleting
  the entry under visit does not disturb the iteration of a JavaScript \<^verbatim>\<open>Map\<close>,
  so the loop is a fold over the entries it started with.
\<close>

definition cleanup_entry :: "string \<times> string list \<Rightarrow> manager \<Rightarrow> manager" where
  "cleanup_entry entry s =
     (if length (snd entry) = 0
      then s\<lparr>rooms := AList.delete (fst entry) (rooms s),
             activeRooms := AList.delete (fst entry) (activeRooms s),
             messageHistory := AList.delete (fst entry) (messageHistory s)\<rparr>
      else s)"

definition cleanupEmptyRooms :: "manager \<Rightarrow> manager" where
  "cleanupEmptyRooms s = fold cleanup_entry (rooms s) s"

subsection \<open>Event handlers\<close>

text \<open>
  Each handler is a function from the state before to the state after and the effects
  in program order. An \<^verbatim>\<open>async\<close> handler is taken as one step: what other
  handlers do while it waits on the cache is not part of this model.
\<close>

text \<open>
  \<^verbatim>\<open>handleConnection\<close> is synchronous and calls \<^verbatim>\<open>updateUserOnlineStatus\<close>
  last, without awaiting it: a rejection there is nobody's to handle.
\<close>

definition handleConnection :: "env \<Rightarrow> manager \<Rightarrow> socket \<Rightarrow> manager \<times> effect list" where
  "handleConnection e s sock =
     (let uid = userId sock;
          st = connectionStats s;
          s1 = s\<lparr>connectionStats :=
                   st\<lparr>totalConnections := totalConnections st + 1,
                      activeUsers := length (connectedUsers s) + 1\<rparr>\<rparr>;
          s2 = s1\<lparr>connectedUsers := AList.update uid sock (connectedUsers s1),
                   userSockets := AList.update (socket_id sock) uid (userSockets s1)\<rparr>;
          s3 = socket_join (socket_id sock) (''role:'' @ userRole sock)
                 (socket_join (socket_id sock) (''user:'' @ uid) s2);
          welcome = SocketEmit (socket_id sock) ''connected''
                      (JObj [(''message'', translate e ''websocket.connected'' [] (userLanguage sock)),
                             (''userId'', JStr uid),
                             (''socketId'', JStr (socket_id sock)),
                             (''language'', JStr (userLanguage sock)),
                             (''timestamp'', JStr (isoNow e)),
                             (''serverTime'', JNum (int (now e)))]);
          before = [Log Info ''User connected via WebSocket'', welcome]
                     @ sendUserActiveRooms e sock
      in case updateUserOnlineStatus e s3 uid True of
           (s4, l4, Inl err) \<Rightarrow> (s4, before @ l4 @ [UnhandledRejection err])
         | (s4, l4, Inr u) \<Rightarrow> (s4, before @ l4))"

text \<open>
  \<^verbatim>\<open>handleDisconnection\<close> awaits \<^verbatim>\<open>updateUserOnlineStatus\<close> and has no
  \<^verbatim>\<open>catch\<close>: when that rejects, the notification of the rooms and
  \<^verbatim>\<open>cleanupEmptyRooms\<close> are not reached, and the rejection is unhandled (the
  listener \<^verbatim>\<open>reason => this.handleDisconnection(socket, reason)\<close> drops the promise).
  The handler reads \<^verbatim>\<open>socket.rooms\<close> as it finds it.
\<close>

definition handleDisconnection :: "env \<Rightarrow> manager \<Rightarrow> socket \<Rightarrow> manager \<times> effect list" where
  "handleDisconnection e s sock =
     (let uid = userId sock;
          s1 = s\<lparr>connectedUsers := AList.delete uid (connectedUsers s),
                  userSockets := AList.delete (socket_id sock) (userSockets s)\<rparr>;
          s2 = s1\<lparr>connectionStats :=
                    (connectionStats s1)\<lparr>activeUsers := length (connectedUsers s1)\<rparr>\<rparr>
      in case updateUserOnlineStatus e s2 uid False of
           (s3, l3, Inl err) \<Rightarrow>
             (s3, [Log Info ''User disconnected from WebSocket''] @ l3 @ [UnhandledRejection err])
         | (s3, l3, Inr u) \<Rightarrow>
             (let userRooms = filter (\<lambda>room. room \<noteq> socket_id sock)
                                (socketRooms s3 (socket_id sock));
                  offline = map (\<lambda>roomId. SocketToEmit (socket_id sock) roomId ''user_offline''
                                     (JObj [(''userId'', JStr uid), (''roomId'', JStr roomId),
                                            (''timestamp'', JStr (isoNow e))])) userRooms
              in (cleanupEmptyRooms s3,
                  [Log Info ''User disconnected from WebSocket''] @ l3 @ offline)))"

text \<open>
  The \<^verbatim>\<open>disconnect\<close> event as a Socket.IO server delivers it: the server takes the
  socket out of all its rooms before the listener runs, so the handler finds
  \<^verbatim>\<open>socket.rooms\<close> empty. This is the library's doing, not code of the manager.
\<close>

definition socket_leaveAll :: "string \<Rightarrow> manager \<Rightarrow> manager" where
  "socket_leaveAll sid s = s\<lparr>socketRooms := (socketRooms s)(sid := [])\<rparr>"

definition onDisconnect :: "env \<Rightarrow> manager \<Rightarrow> socket \<Rightarrow> manager \<times> effect list" where
  "onDisconnect e s sock = handleDisconnection e (socket_leaveAll (socket_id sock) s) sock"

definition handleJoinRoom ::
  "env \<Rightarrow> manager \<Rightarrow> socket \<Rightarrow> string \<Rightarrow> json option \<Rightarrow> manager \<times> effect list" where
  "handleJoinRoom e s sock roomId password =
     (let uid = userId sock;
          sid = socket_id sock;
          failed = [Log Error ''Failed to join room'',
                    SocketEmit sid ''join_room_error''
                      (JObj [(''error'', JStr ''Failed to join room''), (''roomId'', JStr roomId)])];
          (allowed, reason) = validateRoomAccess uid roomId password
      in if \<not> allowed
         then (s, [SocketEmit sid ''join_room_error''
                     (JObj ((case reason of None \<Rightarrow> [] | Some r \<Rightarrow> [(''error'', r)])
                            @ [(''roomId'', JStr roomId)]))])
         else
           (let s1 = socket_join sid roomId s;
                s2 = (if map_of (rooms s1) roomId = None
                      then s1\<lparr>rooms := AList.update roomId [] (rooms s1)\<rparr> else s1);
                s3 = (case map_of (rooms s2) roomId of
                        None \<Rightarrow> s2
                      | Some members \<Rightarrow> s2\<lparr>rooms := AList.update roomId (set_add uid members) (rooms s2)\<rparr>);
                (c4, l4, r4) = updateRoomMetadata e (cache s3) roomId uid Joined;
                s4 = s3\<lparr>cache := c4\<rparr>
            in case r4 of
                 Inl err \<Rightarrow> (s4, l4 @ failed)
               | Inr u \<Rightarrow>
                   (let emits =
                          [SocketEmit sid ''joined_room''
                             (JObj [(''roomId'', JStr roomId),
                                    (''message'', translate e ''websocket.joined_room''
                                                    [(''roomId'', JStr roomId)] (userLanguage sock)),
                                    (''timestamp'', JStr (isoNow e))]),
                           SocketToEmit sid roomId ''user_joined_room''
                             (JObj [(''userId'', JStr uid), (''roomId'', JStr roomId),
                                    (''message'', translate e ''websocket.user_joined''
                                                    [(''userId'', JStr uid)] (userLanguage sock)),
                                    (''timestamp'', JStr (isoNow e))])];
                        (l5, r5) = sendMessageHistory e (cache s4) sock roomId
                    in case r5 of
                         Inl err \<Rightarrow> (s4, l4 @ emits @ l5 @ failed)
                       | Inr u \<Rightarrow> (s4, l4 @ emits @ l5 @ [Log Info ''User joined room'']))))"

definition handleLeaveRoom :: "env \<Rightarrow> manager \<Rightarrow> socket \<Rightarrow> string \<Rightarrow> manager \<times> effect list" where
  "handleLeaveRoom e s sock roomId =
     (let uid = userId sock;
          sid = socket_id sock;
          s1 = socket_leave sid roomId s;
          s2 = (case map_of (rooms s1) roomId of
                  None \<Rightarrow> s1
                | Some members \<Rightarrow>
                    (let s1a = s1\<lparr>rooms := AList.update roomId (set_delete uid members) (rooms s1)\<rparr>
                     in if length (set_delete uid members) = 0
                        then s1a\<lparr>rooms := AList.delete roomId (rooms s1a),
                                 activeRooms := AList.delete roomId (activeRooms s1a)\<rparr>
                        else s1a));
          (c3, l3, r3) = updateRoomMetadata e (cache s2) roomId uid Left;
          s3 = s2\<lparr>cache := c3\<rparr>
      in case r3 of
           Inl err \<Rightarrow> (s3, l3 @ [Log Error ''Failed to leave room''])
         | Inr u \<Rightarrow>
             (s3, l3 @
                [SocketEmit sid ''left_room''
                   (JObj [(''roomId'', JStr roomId),
                          (''message'', translate e ''websocket.left_room''
                                          [(''roomId'', JStr roomId)] (userLanguage sock)),
                          (''timestamp'', JStr (isoNow e))]),
                 SocketToEmit sid roomId ''user_left_room''
                   (JObj [(''userId'', JStr uid), (''roomId'', JStr roomId),
                          (''message'', translate e ''websocket.user_left''
                                          [(''userId'', JStr uid)] (userLanguage sock)),
                          (''timestamp'', JStr (isoNow e))]),
                 Log Info ''User left room'']))"

text \<open>
  \<^verbatim>\<open>send_message\<close>: \<open>message = None\<close> is a payload without the field
  (\<^verbatim>\<open>undefined\<close>); \<open>messageType\<close> and \<open>metadata\<close> take their defaults when absent.
\<close>

definition room_message ::
  "env \<Rightarrow> socket \<Rightarrow> string \<Rightarrow> string \<Rightarrow> string option \<Rightarrow> json option \<Rightarrow> json" where
  "room_message e sock roomId body messageType metadata =
     JObj [(''id'', JStr (generateMessageId e)),
           (''userId'', JStr (userId sock)),
           (''roomId'', JStr roomId),
           (''message'', JStr (trim body)),
           (''messageType'', JStr (case messageType of None \<Rightarrow> ''text'' | Some t \<Rightarrow> t)),
           (''metadata'', (case metadata of None \<Rightarrow> JObj [] | Some m \<Rightarrow> m)),
           (''timestamp'', JStr (isoNow e)),
           (''edited'', JBool False),
           (''reactions'', JObj [])]"

definition message_error :: "env \<Rightarrow> socket \<Rightarrow> string \<Rightarrow> effect" where
  "message_error e sock key =
     SocketEmit (socket_id sock) ''message_error''
       (JObj [(''error'', translate e key [] (userLanguage sock))])"

definition handleSendMessage ::
  "env \<Rightarrow> manager \<Rightarrow> socket \<Rightarrow> string \<Rightarrow> string option \<Rightarrow> string option \<Rightarrow> json option
     \<Rightarrow> manager \<times> effect list" where
  "handleSendMessage e s sock roomId message messageType metadata =
     (case message of
        None \<Rightarrow> (s, [message_error e sock ''websocket.empty_message''])
      | Some body \<Rightarrow>
          if body = [] \<or> length (trim body) = 0
          then (s, [message_error e sock ''websocket.empty_message''])
          else if roomId \<notin> set (socketRooms s (socket_id sock))
          then (s, [message_error e sock ''websocket.not_in_room''])
          else
            (let messageObj = room_message e sock roomId body messageType metadata;
                 (c1, l1, r1) = storeMessage (cache s) roomId messageObj;
                 s1 = s\<lparr>cache := c1\<rparr>
             in case r1 of
                  Inl err \<Rightarrow>
                    (s1, l1 @ [Log Error ''Failed to send message'',
                               message_error e sock ''websocket.message_failed''])
                | Inr u \<Rightarrow>
                    (s1\<lparr>connectionStats :=
                          (connectionStats s1)\<lparr>messagesCount := messagesCount (connectionStats s1) + 1\<rparr>\<rparr>,
                     l1 @ [IoToEmit roomId ''new_message'' messageObj,
                           SocketEmit (socket_id sock) ''message_sent''
                             (JObj [(''messageId'', JStr (generateMessageId e)),
                                    (''timestamp'', JStr (isoNow e))]),
                           Log Info ''Message sent''])))"

definition private_message ::
  "env \<Rightarrow> socket \<Rightarrow> string \<Rightarrow> string \<Rightarrow> string option \<Rightarrow> json" where
  "private_message e sock targetUserId body messageType =
     JObj [(''id'', JStr (generateMessageId e)),
           (''fromUserId'', JStr (userId sock)),
           (''toUserId'', JStr targetUserId),
           (''message'', JStr (trim body)),
           (''messageType'', JStr (case messageType of None \<Rightarrow> ''text'' | Some t \<Rightarrow> t)),
           (''timestamp'', JStr (isoNow e)),
           (''private'', JBool True)]"

definition handlePrivateMessage ::
  "env \<Rightarrow> manager \<Rightarrow> socket \<Rightarrow> string \<Rightarrow> string option \<Rightarrow> string option \<Rightarrow> manager \<times> effect list" where
  "handlePrivateMessage e s sock targetUserId message messageType =
     (case map_of (connectedUsers s) targetUserId of
        None \<Rightarrow>
          (s, [SocketEmit (socket_id sock) ''private_message_error''
                 (JObj [(''error'', translate e ''websocket.user_offline''
                                      [(''userId'', JStr targetUserId)] (userLanguage sock))])])
      | Some targetSocket \<Rightarrow>
          (case message of
             None \<Rightarrow> (s, [Log Error ''Failed to send private message''])
           | Some body \<Rightarrow>
               (let messageObj = private_message e sock targetUserId body messageType;
                    sent = [SocketEmit (socket_id targetSocket) ''private_message'' messageObj,
                            SocketEmit (socket_id sock) ''private_message_sent''
                              (JObj [(''messageId'', JStr (generateMessageId e)),
                                     (''targetUserId'', JStr targetUserId),
                                     (''timestamp'', JStr (isoNow e))])];
                    (c1, l1, r1) = storePrivateMessage (cache s) targetUserId messageObj;
                    s1 = s\<lparr>cache := c1\<rparr>
                in case r1 of
                     Inl err \<Rightarrow> (s1, sent @ l1 @ [Log Error ''Failed to send private message''])
                   | Inr u \<Rightarrow> (s1, sent @ l1 @ [Log Info ''Private message sent'']))))"

text \<open>\<^verbatim>\<open>sendNotificationToUser\<close> returns whether the notification went out at once.\<close>

definition sendNotificationToUser ::
  "env \<Rightarrow> manager \<Rightarrow> string \<Rightarrow> (string \<times> json) list \<Rightarrow> manager \<times> effect list \<times> bool" where
  "sendNotificationToUser e s uid notification =
     (case map_of (connectedUsers s) uid of
        Some sock \<Rightarrow>
          (s, [SocketEmit (socket_id sock) ''notification''
                 (JObj (AList.update ''timestamp'' (JStr (isoNow e)) notification))], True)
      | None \<Rightarrow>
          (let (c1, l1, r1) = storeOfflineNotification e (cache s) uid notification;
               s1 = s\<lparr>cache := c1\<rparr>
           in case r1 of
                Inl err \<Rightarrow> (s1, l1 @ [Log Error ''Failed to send notification''], False)
              | Inr u \<Rightarrow> (s1, l1, False)))"

subsection \<open>Sequences of connections and the events of an effect list\<close>

text \<open>A sequence of \<^verbatim>\<open>connection\<close> events, each with its own environment.\<close>

definition openAll :: "manager \<Rightarrow> (env \<times> socket) list \<Rightarrow> manager" where
  "openAll s evs = fold (\<lambda>ev st. fst (handleConnection (fst ev) st (snd ev))) evs s"

text \<open>The event name of an outgoing effect; a log entry and a rejection have none.\<close>

fun event_of :: "effect \<Rightarrow> string option" where
  "event_of (Log lv txt) = None"
| "event_of (SocketEmit sid ev p) = Some ev"
| "event_of (SocketToEmit sid room ev p) = Some ev"
| "event_of (IoToEmit room ev p) = Some ev"
| "event_of (UnhandledRejection err) = None"

definition events :: "effect list \<Rightarrow> string list" where
  "events effs = List.map_filter event_of effs"

subsection \<open>Concrete data for the scenarios\<close>

definition env0 :: env where
  "env0 = \<lparr>now = 1700000000000, isoNow = ''2023-11-14T22:13:20.000Z'',
            random36 = ''0.4fzyo82mvyr'', translate = (\<lambda>key params locale. JStr key)\<rparr>"

definition cache_up :: cache_state where
  "cache_up = \<lparr>client_present = True, isConnected = True, command_fails = False,
               redis = Map.empty, json_parse = (\<lambda>txt. None)\<rparr>"

definition cache_down :: cache_state where
  "cache_down = \<lparr>client_present = True, isConnected = False, command_fails = False,
                 redis = Map.empty, json_parse = (\<lambda>txt. None)\<rparr>"

text \<open>Socket.IO places every socket in the room named by its own id.\<close>

definition adapter0 :: "string \<Rightarrow> string list" where
  "adapter0 sid = [sid]"

definition alice1 :: socket where
  "alice1 = \<lparr>socket_id = ''s1'', userId = ''alice'', userRole = ''user'', userLanguage = ''en''\<rparr>"

definition alice2 :: socket where
  "alice2 = \<lparr>socket_id = ''s2'', userId = ''alice'', userRole = ''user'', userLanguage = ''en''\<rparr>"

definition bob1 :: socket where
  "bob1 = \<lparr>socket_id = ''s3'', userId = ''bob'', userRole = ''user'', userLanguage = ''en''\<rparr>"

definition dave1 :: socket where
  "dave1 = \<lparr>socket_id = ''s4'', userId = ''dave'', userRole = ''user'', userLanguage = ''en''\<rparr>"

text \<open>States reached by the handlers, and stores that are full, for the scenarios below.\<close>

definition alice_connected :: manager where
  "alice_connected = fst (handleConnection env0 (constructor cache_up adapter0) alice1)"

definition alice_in_general :: manager where
  "alice_in_general = fst (handleJoinRoom env0 alice_connected alice1 ''general'' None)"

definition bob_connected :: manager where
  "bob_connected = fst (handleConnection env0 (constructor cache_up adapter0) bob1)"

definition numbered :: "nat \<Rightarrow> json list" where
  "numbered n = map (\<lambda>i. JNum (int i)) [0..<n]"

definition cache_room_full :: cache_state where
  "cache_room_full =
     cache_up\<lparr>redis := [''room:general:messages'' \<mapsto> (Encoded (JArr (numbered 50)), Some 3600)]\<rparr>"

definition cache_private_full :: cache_state where
  "cache_private_full =
     cache_up\<lparr>redis := [''private_messages:alice'' \<mapsto> (Encoded (JArr (numbered 100)), Some 604800)]\<rparr>"

definition alice_joined_store_down :: manager where
  "alice_joined_store_down =
     fst (handleJoinRoom env0 (fst (handleConnection env0 (constructor cache_down adapter0) alice1))
            alice1 ''general'' None)"

definition ghost_room_state :: manager where
  "ghost_room_state =
     (constructor cache_up adapter0)\<lparr>rooms := [(''ghost'', []), (''general'', [''alice''])]\<rparr>"

definition alice_online_private_full :: manager where
  "alice_online_private_full =
     fst (handleConnection env0 (constructor cache_private_full adapter0) alice1)"

section \<open>Message identifiers\<close>

lemma of_char_digit: "d < 10 \<Longrightarrow> of_char (digit d) = 48 + d"
proof -
  assume "d < 10"
  then have "d \<in> {0,1,2,3,4,5,6,7,8,9}" by auto
  then show ?thesis by (auto simp: digit_def)
qed

lemma digit_less: "a < b \<Longrightarrow> b < 10 \<Longrightarrow> digit a < digit b"
  by (simp add: less_char_def of_char_digit)

lemma digit_inj: "a < 10 \<Longrightarrow> b < 10 \<Longrightarrow> digit a = digit b \<Longrightarrow> a = b"
  by (metis of_char_digit add_left_cancel)

lemma digit_not_underscore: "d < 10 \<Longrightarrow> digit d \<noteq> CHR ''_''"
proof
  assume "d < 10" "digit d = CHR ''_''"
  then have "(of_char (digit d)::nat) = of_char (CHR ''_'')" by simp
  with \<open>d < 10\<close> show False by (simp add: of_char_digit)
qed

lemma decimal_nonempty: "decimal n \<noteq> []"
  by (subst decimal.simps) simp

lemma length_decimal_small: "n < 10 \<Longrightarrow> length (decimal n) = 1"
  by (subst decimal.simps) simp

lemma length_decimal_big: "\<not> n < 10 \<Longrightarrow> length (decimal n) = Suc (length (decimal (n div 10)))"
  by (subst decimal.simps) simp

lemma length_decimal_one: "length (decimal n) = 1 \<longleftrightarrow> n < 10"
  using decimal_nonempty [of "n div 10"]
  by (cases "n < 10") (auto simp: length_decimal_small length_decimal_big)

lemma underscore_notin_decimal: "CHR ''_'' \<notin> set (decimal n)"
proof (induction n rule: decimal.induct)
  case (1 n)
  show ?case
  proof (cases "n < 10")
    case True
    then show ?thesis using digit_not_underscore [of n] by (subst decimal.simps) auto
  next
    case False
    then show ?thesis using 1 digit_not_underscore [of "n mod 10"]
      by (subst decimal.simps) auto
  qed
qed

lemma decimal_inj: "decimal a = decimal b \<Longrightarrow> a = b"
proof (induction a arbitrary: b rule: decimal.induct)
  case (1 a)
  have len: "length (decimal a) = length (decimal b)" using "1.prems" by simp
  show ?case
  proof (cases "a < 10")
    case True
    then have "b < 10" using len length_decimal_one by metis
    with True "1.prems" show ?thesis
      using digit_inj by (simp add: decimal.simps [of a] decimal.simps [of b])
  next
    case False
    then have nb: "\<not> b < 10" using len length_decimal_one by metis
    from False nb "1.prems"
    have "decimal (a div 10) @ [digit (a mod 10)] = decimal (b div 10) @ [digit (b mod 10)]"
      by (simp add: decimal.simps [of a] decimal.simps [of b])
    then have eq: "decimal (a div 10) = decimal (b div 10)" "digit (a mod 10) = digit (b mod 10)"
      by simp_all
    from "1.IH" [OF False eq(1)] have "a div 10 = b div 10" .
    moreover from eq(2) have "a mod 10 = b mod 10" by (intro digit_inj) simp_all
    ultimately show ?thesis by (metis div_mult_mod_eq)
  qed
qed

text \<open>Among renderings of one length, the string order is the order of the numbers.\<close>

lemma decimal_less:
  "a < b \<Longrightarrow> length (decimal a) = length (decimal b) \<Longrightarrow> decimal a < decimal b"
proof (induction a arbitrary: b rule: decimal.induct)
  case (1 a)
  show ?case
  proof (cases "a < 10")
    case True
    then have "b < 10" using "1.prems"(2) length_decimal_one by metis
    with True "1.prems"(1) show ?thesis
      using digit_less [of a b] by (simp add: decimal.simps [of a] decimal.simps [of b])
  next
    case False
    then have nb: "\<not> b < 10" using "1.prems"(2) length_decimal_one by metis
    have da: "decimal a = decimal (a div 10) @ [digit (a mod 10)]"
      using False by (subst decimal.simps) simp
    have db: "decimal b = decimal (b div 10) @ [digit (b mod 10)]"
      using nb by (subst decimal.simps) simp
    have len: "length (decimal (a div 10)) = length (decimal (b div 10))"
      using "1.prems"(2) False nb by (simp add: length_decimal_big)
    have le: "a div 10 \<le> b div 10" using "1.prems"(1) by (simp add: div_le_mono)
    show ?thesis
    proof (cases "a div 10 < b div 10")
      case True
      from "1.IH" [OF False True len]
      have "(decimal (a div 10), decimal (b div 10)) \<in> lexord {(u, v). u < v}"
        by (simp add: list_less_def)
      then have "(decimal (a div 10) @ [digit (a mod 10)], decimal (b div 10) @ [digit (b mod 10)])
                   \<in> lexord {(u, v). u < v}"
        using len by (intro lexord_sufI) simp_all
      then show ?thesis by (simp add: da db list_less_def)
    next
      case False
      with le have eq: "a div 10 = b div 10" by simp
      with "1.prems"(1) have "a mod 10 < b mod 10"
        by (metis div_mult_mod_eq nat_add_left_cancel_less)
      then have "digit (a mod 10) < digit (b mod 10)" by (intro digit_less) simp_all
      then show ?thesis by (simp add: da db eq list_less_def lexord_append_leftI)
    qed
  qed
qed

lemma split_at_underscore:
  "CHR ''_'' \<notin> set d1 \<Longrightarrow> CHR ''_'' \<notin> set d2 \<Longrightarrow> d1 @ CHR ''_'' # r1 = d2 @ CHR ''_'' # r2
     \<Longrightarrow> d1 = d2 \<and> r1 = r2"
proof (induction d1 arbitrary: d2)
  case Nil
  then show ?case by (cases d2) auto
next
  case (Cons c d1)
  then show ?case by (cases d2) auto
qed

lemma generateMessageId_eq_iff:
  "generateMessageId e1 = generateMessageId e2
     \<longleftrightarrow> now e1 = now e2 \<and> take 9 (drop 2 (random36 e1)) = take 9 (drop 2 (random36 e2))"
  using split_at_underscore [OF underscore_notin_decimal underscore_notin_decimal,
          of "now e1" "take 9 (drop 2 (random36 e1))" "now e2" "take 9 (drop 2 (random36 e2))"]
        decimal_inj [of "now e1" "now e2"]
  by (auto simp: generateMessageId_def)

lemma generateMessageId_less:
  assumes "now e1 < now e2" "length (decimal (now e1)) = length (decimal (now e2))"
  shows "generateMessageId e1 < generateMessageId e2"
proof -
  from decimal_less [OF assms]
  have "(decimal (now e1), decimal (now e2)) \<in> lexord {(u, v). u < v}"
    by (simp add: list_less_def)
  then have "(decimal (now e1) @ (''_'' @ take 9 (drop 2 (random36 e1))),
              decimal (now e2) @ (''_'' @ take 9 (drop 2 (random36 e2)))) \<in> lexord {(u, v). u < v}"
    using assms(2) by (intro lexord_sufI) simp_all
  then have "(''msg_'' @ decimal (now e1) @ (''_'' @ take 9 (drop 2 (random36 e1))),
              ''msg_'' @ decimal (now e2) @ (''_'' @ take 9 (drop 2 (random36 e2)))) \<in> lexord {(u, v). u < v}"
    by (rule lexord_append_leftI)
  then show ?thesis by (simp add: generateMessageId_def list_less_def)
qed

text \<open>
  Claim C5, as stated: of two accepted room messages of one instance, the one allocated
  later has the strictly greater id. The id is the text
  \<^verbatim>\<open>msg_<Date.now()>_<random suffix>\<close> and the manager keeps no counter, so two
  allocations within one millisecond are ordered by their random suffixes alone:
  here the first draws \<^verbatim>\<open>zzzzzzzzz\<close>, the second \<^verbatim>\<open>aaaaaaaaa\<close>, and the
  second id is not the greater one.
\<close>

theorem message_id_same_millisecond_counterexample:
  "now (env0\<lparr>random36 := ''0.zzzzzzzzzzz''\<rparr>) = now (env0\<lparr>random36 := ''0.aaaaaaaaaaa''\<rparr>)
   \<and> \<not> generateMessageId (env0\<lparr>random36 := ''0.zzzzzzzzzzz''\<rparr>)
         < generateMessageId (env0\<lparr>random36 := ''0.aaaaaaaaaaa''\<rparr>)"
  by (simp add: generateMessageId_def env0_def decimal.simps digit_def)

text \<open>
  Claim C5, amended: when the clock reading of the later allocation is strictly greater
  and has as many decimal digits as the earlier one, the later id is strictly greater in
  string order, whatever the random suffixes; and two ids are equal exactly when clock
  reading and random suffix are both equal.
\<close>

theorem message_id_order_and_identity:
  "(now e1 < now e2 \<and> length (decimal (now e1)) = length (decimal (now e2))
      \<longrightarrow> generateMessageId e1 < generateMessageId e2)
   \<and> (generateMessageId e1 = generateMessageId e2
      \<longleftrightarrow> now e1 = now e2 \<and> take 9 (drop 2 (random36 e1)) = take 9 (drop 2 (random36 e2)))"
  using generateMessageId_less generateMessageId_eq_iff by blast

theorem message_id_order_and_identity_witness:
  "now env0 < now (env0\<lparr>now := 1700000000001\<rparr>)
   \<and> length (decimal (now env0)) = length (decimal (now (env0\<lparr>now := 1700000000001\<rparr>)))
   \<and> generateMessageId env0 < generateMessageId (env0\<lparr>now := 1700000000001\<rparr>)"
  using message_id_order_and_identity [of env0 "env0\<lparr>now := 1700000000001\<rparr>"]
  by (simp add: env0_def decimal.simps digit_def)

section \<open>Projections of the handlers\<close>

lemma events_append: "events (xs @ ys) = events xs @ events ys"
  by (simp add: events_def List.map_filter_def)

lemma cache_set_flags:
  "isReady (fst (cache_set c key v ttl)) = isReady c"
  "command_fails (fst (cache_set c key v ttl)) = command_fails c"
  "json_parse (fst (cache_set c key v ttl)) = json_parse c"
  by (simp_all add: cache_set_def isReady_def)

lemma cache_set_not_ready: "\<not> isReady c \<Longrightarrow> cache_set c key v ttl = (c, [], Inl TypeError)"
  by (simp add: cache_set_def)

lemma cache_get_not_ready: "\<not> isReady c \<Longrightarrow> cache_get c key = ([], Inl TypeError)"
  by (simp add: cache_get_def)

lemma cache_set_ready:
  "isReady c \<Longrightarrow> snd (snd (cache_set c key v ttl)) = Inr (\<not> command_fails c)"
  by (simp add: cache_set_def)

lemma events_cache_set: "events (fst (snd (cache_set c key v ttl))) = []"
  by (simp add: cache_set_def events_def map_filter_simps)

lemma handleConnection_connectedUsers:
  "connectedUsers (fst (handleConnection e s sock)) = AList.update (userId sock) sock (connectedUsers s)"
  by (simp add: handleConnection_def updateUserOnlineStatus_def socket_join_def Let_def
        split: prod.splits sum.splits)

lemma handleConnection_userSockets:
  "userSockets (fst (handleConnection e s sock)) = AList.update (socket_id sock) (userId sock) (userSockets s)"
  by (simp add: handleConnection_def updateUserOnlineStatus_def socket_join_def Let_def
        split: prod.splits sum.splits)

lemma handleConnection_rooms:
  "rooms (fst (handleConnection e s sock)) = rooms s"
  by (simp add: handleConnection_def updateUserOnlineStatus_def socket_join_def Let_def
        split: prod.splits sum.splits)

lemma handleConnection_cache:
  "cache (fst (handleConnection e s sock))
     = fst (cache_set (cache s) (''user:'' @ userId sock @ '':online'') (JBool True) 300)"
  by (simp add: handleConnection_def updateUserOnlineStatus_def socket_join_def Let_def
        split: prod.splits sum.splits)

lemma handleConnection_socketRooms:
  "socketRooms (fst (handleConnection e s sock)) =
     (socketRooms s)(socket_id sock :=
        set_add (''role:'' @ userRole sock)
          (set_add (''user:'' @ userId sock) (socketRooms s (socket_id sock))))"
  by (simp add: handleConnection_def updateUserOnlineStatus_def socket_join_def Let_def
        split: prod.splits sum.splits)

lemma handleConnection_effects:
  "snd (handleConnection e s sock) =
     [Log Info ''User connected via WebSocket'',
      SocketEmit (socket_id sock) ''connected''
        (JObj [(''message'', translate e ''websocket.connected'' [] (userLanguage sock)),
               (''userId'', JStr (userId sock)),
               (''socketId'', JStr (socket_id sock)),
               (''language'', JStr (userLanguage sock)),
               (''timestamp'', JStr (isoNow e)),
               (''serverTime'', JNum (int (now e)))]),
      SocketEmit (socket_id sock) ''active_rooms''
        (JObj [(''rooms'', JArr []), (''timestamp'', JStr (isoNow e))])]
     @ fst (snd (cache_set (cache s) (''user:'' @ userId sock @ '':online'') (JBool True) 300))
     @ (if isReady (cache s)
        then [IoToEmit (''user:'' @ userId sock) ''user_status_changed''
                (JObj [(''userId'', JStr (userId sock)), (''online'', JBool True),
                       (''lastSeen'', JStr (isoNow e)), (''timestamp'', JStr (isoNow e))])]
        else [UnhandledRejection TypeError])"
  by (simp add: handleConnection_def updateUserOnlineStatus_def socket_join_def Let_def
        sendUserActiveRooms_def broadcastToRoom_def cache_set_def split: prod.splits sum.splits)

lemma handleConnection_events:
  "events (snd (handleConnection e s sock)) =
     (if isReady (cache s) then [''connected'', ''active_rooms'', ''user_status_changed'']
      else [''connected'', ''active_rooms''])"
proof -
  have "events (snd (handleConnection e s sock)) =
          events [Log Info ''User connected via WebSocket'',
      SocketEmit (socket_id sock) ''connected''
        (JObj [(''message'', translate e ''websocket.connected'' [] (userLanguage sock)),
               (''userId'', JStr (userId sock)),
               (''socketId'', JStr (socket_id sock)),
               (''language'', JStr (userLanguage sock)),
               (''timestamp'', JStr (isoNow e)),
               (''serverTime'', JNum (int (now e)))]),
      SocketEmit (socket_id sock) ''active_rooms''
        (JObj [(''rooms'', JArr []), (''timestamp'', JStr (isoNow e))])]
          @ events (fst (snd (cache_set (cache s) (''user:'' @ userId sock @ '':online'') (JBool True) 300)))
          @ events (if isReady (cache s)
        then [IoToEmit (''user:'' @ userId sock) ''user_status_changed''
                (JObj [(''userId'', JStr (userId sock)), (''online'', JBool True),
                       (''lastSeen'', JStr (isoNow e)), (''timestamp'', JStr (isoNow e))])]
        else [UnhandledRejection TypeError])"
    unfolding handleConnection_effects events_append ..
  then show ?thesis
    by (simp add: events_cache_set) (simp add: events_def map_filter_simps)
qed

lemma handlePrivateMessage_offline:
  "map_of (connectedUsers s) targetUserId = None \<Longrightarrow>
     handlePrivateMessage e s sock targetUserId message messageType =
       (s, [SocketEmit (socket_id sock) ''private_message_error''
              (JObj [(''error'', translate e ''websocket.user_offline''
                                   [(''userId'', JStr targetUserId)] (userLanguage sock))])])"
  by (simp add: handlePrivateMessage_def)

lemma cleanup_entry_other:
  "connectedUsers (cleanup_entry en s) = connectedUsers s"
  "userSockets (cleanup_entry en s) = userSockets s"
  "cache (cleanup_entry en s) = cache s"
  by (simp_all add: cleanup_entry_def)

lemma fold_cleanup_other:
  "connectedUsers (fold cleanup_entry es s) = connectedUsers s"
  "userSockets (fold cleanup_entry es s) = userSockets s"
  "cache (fold cleanup_entry es s) = cache s"
  by (induction es arbitrary: s) (simp_all add: cleanup_entry_other)

lemma cleanup_entry_rooms:
  "rooms (cleanup_entry en s) = filter (\<lambda>x. \<not> (snd en = [] \<and> fst x = fst en)) (rooms s)"
  by (auto simp: cleanup_entry_def AList.delete_eq intro!: filter_cong)

lemma fold_cleanup_rooms:
  "rooms (fold cleanup_entry es s) = filter (\<lambda>en. (fst en, []) \<notin> set es) (rooms s)"
proof (induction es arbitrary: s)
  case Nil
  then show ?case by simp
next
  case (Cons en es)
  have "rooms (fold cleanup_entry (en # es) s) = rooms (fold cleanup_entry es (cleanup_entry en s))"
    by simp
  also have "\<dots> = filter (\<lambda>x. (fst x, []) \<notin> set es) (rooms (cleanup_entry en s))"
    by (rule Cons.IH)
  also have "\<dots> = filter (\<lambda>x. (fst x, []) \<notin> set (en # es)) (rooms s)"
    unfolding cleanup_entry_rooms filter_filter
    by (rule filter_cong) (auto simp: prod_eq_iff)
  finally show ?case .
qed

lemma cleanupEmptyRooms_rooms:
  "rooms (cleanupEmptyRooms s) = filter (\<lambda>en. (fst en, []) \<notin> set (rooms s)) (rooms s)"
  by (simp add: cleanupEmptyRooms_def fold_cleanup_rooms)

lemma cleanupEmptyRooms_no_empty:
  "en \<in> set (rooms (cleanupEmptyRooms s)) \<Longrightarrow> snd en \<noteq> []"
  by (cases en) (auto simp: cleanupEmptyRooms_rooms)

lemma handleDisconnection_connectedUsers:
  "connectedUsers (fst (handleDisconnection e s sock)) = AList.delete (userId sock) (connectedUsers s)"
  by (simp add: handleDisconnection_def cleanupEmptyRooms_def fold_cleanup_other
        updateUserOnlineStatus_def Let_def split: prod.splits sum.splits)

lemma handleDisconnection_userSockets:
  "userSockets (fst (handleDisconnection e s sock)) = AList.delete (socket_id sock) (userSockets s)"
  by (simp add: handleDisconnection_def cleanupEmptyRooms_def fold_cleanup_other
        updateUserOnlineStatus_def Let_def split: prod.splits sum.splits)

lemma handleDisconnection_rooms:
  "rooms (fst (handleDisconnection e s sock)) =
     (if isReady (cache s) then rooms (cleanupEmptyRooms s) else rooms s)"
  by (simp add: handleDisconnection_def cleanupEmptyRooms_def fold_cleanup_rooms
        updateUserOnlineStatus_def cache_set_def Let_def split: prod.splits sum.splits)

lemma handleDisconnection_effects:
  "snd (handleDisconnection e s sock) =
     [Log Info ''User disconnected from WebSocket'']
     @ fst (snd (cache_set (cache s) (''user:'' @ userId sock @ '':online'') (JBool False) 300))
     @ (if isReady (cache s)
        then IoToEmit (''user:'' @ userId sock) ''user_status_changed''
               (JObj [(''userId'', JStr (userId sock)), (''online'', JBool False),
                      (''lastSeen'', JStr (isoNow e)), (''timestamp'', JStr (isoNow e))])
             # map (\<lambda>roomId. SocketToEmit (socket_id sock) roomId ''user_offline''
                      (JObj [(''userId'', JStr (userId sock)), (''roomId'', JStr roomId),
                             (''timestamp'', JStr (isoNow e))]))
                 (filter (\<lambda>room. room \<noteq> socket_id sock) (socketRooms s (socket_id sock)))
        else [UnhandledRejection TypeError])"
  by (simp add: handleDisconnection_def updateUserOnlineStatus_def broadcastToRoom_def
        cache_set_def Let_def split: prod.splits sum.splits)

lemma onDisconnect_state:
  "connectedUsers (fst (onDisconnect e s sock)) = AList.delete (userId sock) (connectedUsers s)"
  "rooms (fst (onDisconnect e s sock)) =
     (if isReady (cache s) then rooms (cleanupEmptyRooms s) else rooms s)"
  by (simp_all add: onDisconnect_def handleDisconnection_connectedUsers handleDisconnection_rooms
        socket_leaveAll_def cleanupEmptyRooms_rooms)

lemma onDisconnect_events:
  "events (snd (onDisconnect e s sock)) =
     (if isReady (cache s) then [''user_status_changed''] else [])"
  by (simp add: onDisconnect_def handleDisconnection_effects socket_leaveAll_def cache_set_def
        events_def map_filter_simps)

lemma handleJoinRoom_rooms:
  "rooms (fst (handleJoinRoom e s sock roomId password)) =
     AList.update roomId
       (set_add (userId sock) (case map_of (rooms s) roomId of None \<Rightarrow> [] | Some ms \<Rightarrow> ms))
       (rooms s)"
  by (simp add: handleJoinRoom_def validateRoomAccess_def socket_join_def Let_def update_conv'
        split: prod.splits sum.splits option.splits)

lemma handleJoinRoom_socketRooms:
  "socketRooms (fst (handleJoinRoom e s sock roomId password)) =
     (socketRooms s)(socket_id sock := set_add roomId (socketRooms s (socket_id sock)))"
  by (simp add: handleJoinRoom_def validateRoomAccess_def socket_join_def Let_def
        split: prod.splits sum.splits option.splits)

lemma handleJoinRoom_cache:
  "cache (fst (handleJoinRoom e s sock roomId password)) =
     fst (updateRoomMetadata e (cache s) roomId (userId sock) Joined)"
  by (simp add: handleJoinRoom_def validateRoomAccess_def socket_join_def Let_def
        split: prod.splits sum.splits option.splits)

lemma handleLeaveRoom_rooms:
  "rooms (fst (handleLeaveRoom e s sock roomId)) =
     (case map_of (rooms s) roomId of
        None \<Rightarrow> rooms s
      | Some ms \<Rightarrow>
          if set_delete (userId sock) ms = []
          then AList.delete roomId (rooms s)
          else AList.update roomId (set_delete (userId sock) ms) (rooms s))"
  by (simp add: handleLeaveRoom_def socket_leave_def Let_def delete_update_same
        split: prod.splits sum.splits option.splits)

lemma handleLeaveRoom_activeRooms:
  "activeRooms (fst (handleLeaveRoom e s sock roomId)) =
     (case map_of (rooms s) roomId of
        None \<Rightarrow> activeRooms s
      | Some ms \<Rightarrow>
          if set_delete (userId sock) ms = []
          then AList.delete roomId (activeRooms s)
          else activeRooms s)"
  by (simp add: handleLeaveRoom_def socket_leave_def Let_def
        split: prod.splits sum.splits option.splits)

lemma updateRoomMetadata_flags:
  "isReady (fst (updateRoomMetadata e c roomId uid action)) = isReady c"
  "command_fails (fst (updateRoomMetadata e c roomId uid action)) = command_fails c"
  by (auto simp: updateRoomMetadata_def Let_def cache_set_def isReady_def
        split: prod.splits sum.splits json.splits option.splits)

lemma updateRoomMetadata_not_ready:
  "\<not> isReady c \<Longrightarrow> updateRoomMetadata e c roomId uid action = (c, [], Inl TypeError)"
  by (simp add: updateRoomMetadata_def cache_get_not_ready)

lemma isReady_cache_up: "isReady cache_up"
  by (simp add: isReady_def cache_up_def)

lemma handleDisconnection_cache:
  "cache (fst (handleDisconnection e s sock))
     = fst (cache_set (cache s) (''user:'' @ userId sock @ '':online'') (JBool False) 300)"
  by (simp add: handleDisconnection_def cleanupEmptyRooms_def fold_cleanup_other
        updateUserOnlineStatus_def Let_def split: prod.splits sum.splits)

lemma onDisconnect_cache:
  "cache (fst (onDisconnect e s sock))
     = fst (cache_set (cache s) (''user:'' @ userId sock @ '':online'') (JBool False) 300)"
  by (simp add: onDisconnect_def handleDisconnection_cache socket_leaveAll_def)

section \<open>The connection registry\<close>

lemma openAll_snoc: "openAll s (evs @ [ev]) = fst (handleConnection (fst ev) (openAll s evs) (snd ev))"
  by (simp add: openAll_def)

lemma openAll_userSockets:
  "\<forall>ev\<in>set evs. userId (snd ev) = P \<Longrightarrow> ev \<in> set evs
     \<Longrightarrow> map_of (userSockets (openAll s evs)) (socket_id (snd ev)) = Some P"
proof (induction evs rule: rev_induct)
  case Nil
  then show ?case by simp
next
  case (snoc x evs)
  then show ?case
    by (auto simp add: openAll_snoc handleConnection_userSockets update_conv')
qed

lemma openAll_distinct:
  "distinct (map fst (connectedUsers s)) \<Longrightarrow> distinct (map fst (connectedUsers (openAll s evs)))"
  by (induction evs rule: rev_induct)
     (simp_all add: openAll_def handleConnection_connectedUsers distinct_update)

text \<open>
  Claim C1, as stated: after any sequence of connections of one principal the lookup
  gives the newest handle, every earlier handle is closed, the registry has no two live
  entries for the principal, and a later disconnect of an earlier handle leaves the newest
  mapping intact. The manager never closes a socket, and \<^verbatim>\<open>handleDisconnection\<close>
  deletes the entry of the user id whichever socket it is called for: after alice opens
  \<^verbatim>\<open>s1\<close> and then \<^verbatim>\<open>s2\<close>, the socket \<^verbatim>\<open>s1\<close> is still registered for
  her, and once \<^verbatim>\<open>s1\<close> disconnects the lookup of alice finds nothing although
  \<^verbatim>\<open>s2\<close> is open. This holds of the handler called on the state as it is, and of
  the event as the server delivers it.
\<close>

theorem stale_disconnect_counterexample:
  "map_of (userSockets (openAll (constructor cache_up adapter0) [(env0, alice1), (env0, alice2)])) ''s1''
     = Some ''alice''
   \<and> map_of (connectedUsers (openAll (constructor cache_up adapter0) [(env0, alice1), (env0, alice2)])) ''alice''
     = Some alice2
   \<and> map_of (connectedUsers (fst (handleDisconnection env0
        (openAll (constructor cache_up adapter0) [(env0, alice1), (env0, alice2)]) alice1))) ''alice''
     = None
   \<and> map_of (connectedUsers (fst (onDisconnect env0
        (openAll (constructor cache_up adapter0) [(env0, alice1), (env0, alice2)]) alice1))) ''alice''
     = None"
  by (simp add: openAll_def handleConnection_connectedUsers handleConnection_userSockets
        handleDisconnection_connectedUsers onDisconnect_state constructor_def alice1_def alice2_def)

text \<open>
  Claim C1, amended: after a non-empty sequence of connections of principal \<open>P\<close>,
  \<^verbatim>\<open>connectedUsers.get(P)\<close> is the socket of the last connection; every socket of the
  sequence is still registered for \<open>P\<close> in \<^verbatim>\<open>userSockets\<close> (none is closed or
  removed); and \<^verbatim>\<open>connectedUsers\<close> keeps one entry per user id.
\<close>

theorem latest_connection_resolves:
  assumes "evs \<noteq> []" and "\<forall>ev\<in>set evs. userId (snd ev) = P"
  shows "map_of (connectedUsers (openAll s evs)) P = Some (snd (last evs))
       \<and> (\<forall>ev\<in>set evs. map_of (userSockets (openAll s evs)) (socket_id (snd ev)) = Some P)
       \<and> (distinct (map fst (connectedUsers s)) \<longrightarrow> distinct (map fst (connectedUsers (openAll s evs))))"
proof -
  obtain ev evs' where evs: "evs = evs' @ [ev]"
    using assms(1) by (metis rev_exhaust)
  have "map_of (connectedUsers (openAll s evs)) P = Some (snd (last evs))"
    using assms(2) by (simp add: evs openAll_snoc handleConnection_connectedUsers update_conv')
  moreover have "\<forall>ev\<in>set evs. map_of (userSockets (openAll s evs)) (socket_id (snd ev)) = Some P"
    using openAll_userSockets [OF assms(2)] by blast
  ultimately show ?thesis using openAll_distinct by blast
qed

text \<open>The amended claim C1 at two connections of alice.\<close>

theorem latest_connection_resolves_witness:
  "[(env0, alice1), (env0, alice2)] \<noteq> []
   \<and> userId (snd (env0, alice1)) = ''alice'' \<and> userId (snd (env0, alice2)) = ''alice''
   \<and> distinct (map fst (connectedUsers (constructor cache_up adapter0)))
   \<and> map_of (connectedUsers (openAll (constructor cache_up adapter0) [(env0, alice1), (env0, alice2)])) ''alice''
       = Some alice2
   \<and> map_of (userSockets (openAll (constructor cache_up adapter0) [(env0, alice1), (env0, alice2)])) ''s1''
       = Some ''alice''
   \<and> map_of (userSockets (openAll (constructor cache_up adapter0) [(env0, alice1), (env0, alice2)])) ''s2''
       = Some ''alice''
   \<and> distinct (map fst (connectedUsers (openAll (constructor cache_up adapter0) [(env0, alice1), (env0, alice2)])))"
  using latest_connection_resolves [of "[(env0, alice1), (env0, alice2)]" "''alice''" "constructor cache_up adapter0"]
  by (simp add: alice1_def alice2_def constructor_def)

section \<open>Private messages to a principal without a connection\<close>

text \<open>
  Claim C2, as stated: a private message sent to an offline principal is delivered
  exactly once, by replay, when the principal connects again. Bob sends
  \<^verbatim>\<open>hello\<close> to dave, who is offline; dave connects: no \<^verbatim>\<open>notification\<close> and no
  \<^verbatim>\<open>private_message\<close> event is among the effects of his connection.
\<close>

theorem offline_replay_counterexample:
  "map_of (connectedUsers bob_connected) ''dave'' = None
   \<and> filter (\<lambda>ev. ev = ''notification'' \<or> ev = ''private_message'')
        (events (snd (handleConnection env0
           (fst (handlePrivateMessage env0 bob_connected bob1 ''dave'' (Some ''hello'') None)) dave1)))
       = []"
  by (simp add: handleConnection_events bob_connected_def handleConnection_connectedUsers
        constructor_def bob1_def)

text \<open>
  Claim C2, amended: a private message to a principal without a connection leaves the
  state of the manager and of the store as it was. A connection of the target after it,
  and a connection in any state whatever, emits exactly the events \<^verbatim>\<open>connected\<close>
  and \<^verbatim>\<open>active_rooms\<close>, followed by \<^verbatim>\<open>user_status_changed\<close> when the cache is
  ready (when it is not, the status write rejects before the broadcast). No connection
  replays anything: the message is delivered zero times.
\<close>

theorem offline_private_message_never_replayed:
  "map_of (connectedUsers s) targetUserId = None \<Longrightarrow>
     fst (handlePrivateMessage e s sock targetUserId message messageType) = s
   \<and> events (snd (handleConnection e1
        (fst (handlePrivateMessage e s sock targetUserId message messageType)) target1))
       = (if isReady (cache s) then [''connected'', ''active_rooms'', ''user_status_changed'']
          else [''connected'', ''active_rooms''])
   \<and> events (snd (handleConnection e2 s2 target2))
       = (if isReady (cache s2) then [''connected'', ''active_rooms'', ''user_status_changed'']
          else [''connected'', ''active_rooms''])"
  by (simp add: handlePrivateMessage_offline handleConnection_events)

text \<open>
  The amended claim C2 for bob writing to dave, with the cache ready; dave connects,
  disconnects and connects again.
\<close>

theorem offline_private_message_never_replayed_witness:
  "map_of (connectedUsers bob_connected) ''dave'' = None
   \<and> isReady (cache bob_connected)
   \<and> fst (handlePrivateMessage env0 bob_connected bob1 ''dave'' (Some ''hello'') None) = bob_connected
   \<and> events (snd (handleConnection env0
        (fst (handlePrivateMessage env0 bob_connected bob1 ''dave'' (Some ''hello'') None)) dave1))
       = [''connected'', ''active_rooms'', ''user_status_changed'']
   \<and> events (snd (handleConnection env0
        (fst (onDisconnect env0 (fst (handleConnection env0 bob_connected dave1)) dave1)) dave1))
       = [''connected'', ''active_rooms'', ''user_status_changed'']"
proof -
  have off: "map_of (connectedUsers bob_connected) ''dave'' = None"
    by (simp add: bob_connected_def handleConnection_connectedUsers constructor_def bob1_def)
  have r: "isReady (cache bob_connected)"
    by (simp add: bob_connected_def handleConnection_cache cache_set_flags constructor_def
          isReady_cache_up)
  have r2: "isReady (cache (fst (onDisconnect env0 (fst (handleConnection env0 bob_connected dave1)) dave1)))"
    using r by (simp add: onDisconnect_cache handleConnection_cache cache_set_flags)
  note th = offline_private_message_never_replayed
         [OF off, where e = env0 and sock = bob1 and message = "Some ''hello''"
            and messageType = None and ?e1.0 = env0 and ?target1.0 = dave1
            and ?e2.0 = env0 and ?target2.0 = dave1
            and ?s2.0 = "fst (onDisconnect env0 (fst (handleConnection env0 bob_connected dave1)) dave1)"]
  from th have same: "fst (handlePrivateMessage env0 bob_connected bob1 ''dave'' (Some ''hello'') None)
                        = bob_connected"
    by (rule conjunct1)
  from th [THEN conjunct2, THEN conjunct1] r have first: "events (snd (handleConnection env0
        (fst (handlePrivateMessage env0 bob_connected bob1 ''dave'' (Some ''hello'') None)) dave1))
       = [''connected'', ''active_rooms'', ''user_status_changed'']"
    by (simp only: if_True)
  from th [THEN conjunct2, THEN conjunct2] r2 have "events (snd (handleConnection env0
        (fst (onDisconnect env0 (fst (handleConnection env0 bob_connected dave1)) dave1)) dave1))
       = [''connected'', ''active_rooms'', ''user_status_changed'']"
    by (simp only: if_True)
  with off r same first show ?thesis by blast
qed

text \<open>
  Claim C3, as stated: a private message whose target has no live connection is
  appended to the target's offline queue and no error goes to the sender. Bob writes to
  dave, who is offline: bob's socket receives \<^verbatim>\<open>private_message_error\<close>, and neither
  \<^verbatim>\<open>offline_notifications:dave\<close> nor \<^verbatim>\<open>private_messages:dave\<close> exists in the
  store afterwards.
\<close>

theorem private_message_to_offline_counterexample:
  "map_of (connectedUsers (fst (handleConnection env0 (constructor cache_up adapter0) bob1))) ''dave'' = None
   \<and> snd (handlePrivateMessage env0 (fst (handleConnection env0 (constructor cache_up adapter0) bob1))
        bob1 ''dave'' (Some ''hello'') None) =
        [SocketEmit ''s3'' ''private_message_error''
           (JObj [(''error'', JStr ''websocket.user_offline'')])]
   \<and> redis (cache (fst (handlePrivateMessage env0
         (fst (handleConnection env0 (constructor cache_up adapter0) bob1))
         bob1 ''dave'' (Some ''hello'') None))) ''offline_notifications:dave'' = None
   \<and> redis (cache (fst (handlePrivateMessage env0
         (fst (handleConnection env0 (constructor cache_up adapter0) bob1))
         bob1 ''dave'' (Some ''hello'') None))) ''private_messages:dave'' = None"
proof -
  have off: "map_of (connectedUsers (fst (handleConnection env0 (constructor cache_up adapter0) bob1))) ''dave'' = None"
    by (simp add: handleConnection_connectedUsers constructor_def bob1_def)
  show ?thesis
    by (simp add: handlePrivateMessage_offline [OF off] off handleConnection_cache)
       (simp add: constructor_def cache_set_def isReady_def cache_up_def bob1_def env0_def)
qed

text \<open>
  Claim C3, amended: for every private message whose target has no entry in
  \<^verbatim>\<open>connectedUsers\<close>, the handler sends one \<^verbatim>\<open>private_message_error\<close> event
  (the translation of \<^verbatim>\<open>websocket.user_offline\<close>) to the sender's socket and changes
  nothing: no id is built into a message, nothing is written to the store.
\<close>

theorem private_message_to_offline_rejected:
  "map_of (connectedUsers s) targetUserId = None \<Longrightarrow>
     handlePrivateMessage e s sock targetUserId message messageType =
       (s, [SocketEmit (socket_id sock) ''private_message_error''
              (JObj [(''error'', translate e ''websocket.user_offline''
                                   [(''userId'', JStr targetUserId)] (userLanguage sock))])])"
  by (rule handlePrivateMessage_offline)

text \<open>The amended claim C3 for bob writing to dave.\<close>

theorem private_message_to_offline_rejected_witness:
  "map_of (connectedUsers (fst (handleConnection env0 (constructor cache_up adapter0) bob1))) ''dave'' = None
   \<and> handlePrivateMessage env0 (fst (handleConnection env0 (constructor cache_up adapter0) bob1))
        bob1 ''dave'' (Some ''hello'') None =
       (fst (handleConnection env0 (constructor cache_up adapter0) bob1),
        [SocketEmit ''s3'' ''private_message_error''
           (JObj [(''error'', JStr ''websocket.user_offline'')])])"
  using private_message_to_offline_rejected
          [of "fst (handleConnection env0 (constructor cache_up adapter0) bob1)" "''dave''"
              env0 bob1 "Some ''hello''" None]
  by (simp add: handleConnection_connectedUsers constructor_def bob1_def env0_def)

section \<open>Room membership at disconnect and at leave\<close>

lemma isReady_alice_in_general: "isReady (cache alice_in_general)"
  by (simp add: alice_in_general_def alice_connected_def handleJoinRoom_cache
        updateRoomMetadata_flags handleConnection_cache cache_set_flags constructor_def
        isReady_cache_up)

text \<open>
  Claim C4: when the connection of principal \<open>P\<close> closes, \<open>P\<close> leaves every room it
  had joined, and a room whose member set is empty after the cleanup no longer exists.
  \<^verbatim>\<open>handleDisconnection\<close> removes the user from \<^verbatim>\<open>connectedUsers\<close> and
  \<^verbatim>\<open>userSockets\<close> and calls \<^verbatim>\<open>cleanupEmptyRooms\<close>, but never deletes the user
  from a member set of \<^verbatim>\<open>this.rooms\<close>, as \<^verbatim>\<open>handleLeaveRoom\<close> does. Alice
  connects, joins \<^verbatim>\<open>general\<close> and disconnects, the cache being ready: she is
  offline, and the room still lists her, also after one more cleanup pass. The same holds
  of the event as the server delivers it, with the rooms of the socket already left.
\<close>

theorem disconnect_keeps_room_membership:
  "map_of (rooms alice_in_general) ''general'' = Some [''alice'']
   \<and> rooms (fst (handleDisconnection env0 alice_in_general alice1)) = [(''general'', [''alice''])]
   \<and> rooms (cleanupEmptyRooms (fst (handleDisconnection env0 alice_in_general alice1)))
        = [(''general'', [''alice''])]
   \<and> map_of (connectedUsers (fst (handleDisconnection env0 alice_in_general alice1))) ''alice'' = None
   \<and> rooms (fst (onDisconnect env0 alice_in_general alice1)) = [(''general'', [''alice''])]
   \<and> map_of (connectedUsers (fst (onDisconnect env0 alice_in_general alice1))) ''alice'' = None"
proof -
  have r: "rooms alice_in_general = [(''general'', [''alice''])]"
    by (simp add: alice_in_general_def alice_connected_def handleJoinRoom_rooms
          handleConnection_rooms constructor_def set_add_def alice1_def)
  have c: "rooms (cleanupEmptyRooms alice_in_general) = [(''general'', [''alice''])]"
    by (simp add: cleanupEmptyRooms_rooms r)
  have c2: "rooms (cleanupEmptyRooms (fst (handleDisconnection env0 alice_in_general alice1)))
              = [(''general'', [''alice''])]"
    by (simp add: cleanupEmptyRooms_rooms handleDisconnection_rooms isReady_alice_in_general r)
  have uid: "userId alice1 = ''alice''" by (simp add: alice1_def)
  show ?thesis
    by (simp add: handleDisconnection_rooms handleDisconnection_connectedUsers onDisconnect_state
          isReady_alice_in_general r c c2 delete_conv' uid)
qed

text \<open>
  Claim C8, as stated: a leave that empties the member set does not delete the room; the
  room is only marked and removed by a later periodic cleanup. Alice is the only member
  of \<^verbatim>\<open>general\<close> and leaves: the room is gone from \<^verbatim>\<open>this.rooms\<close> when
  \<^verbatim>\<open>handleLeaveRoom\<close> returns.
\<close>

theorem leave_empties_room_counterexample:
  "map_of (rooms alice_in_general) ''general'' = Some [''alice'']
   \<and> map_of (rooms (fst (handleLeaveRoom env0 alice_in_general alice1 ''general''))) ''general'' = None"
  by (simp add: alice_in_general_def alice_connected_def handleLeaveRoom_rooms
        handleJoinRoom_rooms handleConnection_rooms constructor_def set_add_def set_delete_def
        alice1_def)

text \<open>
  Claim C8, amended: a leave that empties the member set of a room deletes the room from
  \<^verbatim>\<open>this.rooms\<close> and from \<^verbatim>\<open>this.activeRooms\<close> within
  \<^verbatim>\<open>handleLeaveRoom\<close> itself; and one pass of \<^verbatim>\<open>cleanupEmptyRooms\<close> leaves no
  room with an empty member set, without any grace period.
\<close>

theorem leave_deletes_empty_room_at_once:
  assumes "map_of (rooms s) roomId = Some members" and "set_delete (userId sock) members = []"
  shows "roomId \<notin> fst ` set (rooms (fst (handleLeaveRoom e s sock roomId)))
       \<and> roomId \<notin> fst ` set (activeRooms (fst (handleLeaveRoom e s sock roomId)))
       \<and> (\<forall>en\<in>set (rooms (cleanupEmptyRooms s)). snd en \<noteq> [])"
  using assms cleanupEmptyRooms_no_empty
  by (auto simp: handleLeaveRoom_rooms handleLeaveRoom_activeRooms delete_notin_dom)

text \<open>
  The amended claim C8 for alice leaving \<^verbatim>\<open>general\<close>, and for one cleanup pass over
  a state with an empty room.
\<close>

theorem leave_deletes_empty_room_at_once_witness:
  "map_of (rooms alice_in_general) ''general'' = Some [''alice'']
   \<and> set_delete (userId alice1) [''alice''] = []
   \<and> ''general'' \<notin> fst ` set (rooms (fst (handleLeaveRoom env0 alice_in_general alice1 ''general'')))
   \<and> rooms (cleanupEmptyRooms ghost_room_state) = [(''general'', [''alice''])]
   \<and> list_all (\<lambda>en. snd en \<noteq> []) (rooms (cleanupEmptyRooms ghost_room_state))"
proof -
  have m: "map_of (rooms alice_in_general) ''general'' = Some [''alice'']"
    by (simp add: alice_in_general_def alice_connected_def handleJoinRoom_rooms
          handleConnection_rooms constructor_def set_add_def alice1_def)
  have d: "set_delete (userId alice1) [''alice''] = []"
    by (simp add: set_delete_def alice1_def)
  have g: "rooms (cleanupEmptyRooms ghost_room_state) = [(''general'', [''alice''])]"
    by (simp add: cleanupEmptyRooms_rooms ghost_room_state_def constructor_def)
  from leave_deletes_empty_room_at_once [OF m d, of env0]
  show ?thesis using m d g by simp
qed

section \<open>Validation of room messages\<close>

lemma dropWhile_all_iff: "(\<forall>c\<in>set (dropWhile P xs). P c) \<longleftrightarrow> (\<forall>c\<in>set xs. P c)"
proof
  assume a: "\<forall>c\<in>set (dropWhile P xs). P c"
  have "dropWhile P xs = []"
  proof (cases "dropWhile P xs")
    case Nil
    then show ?thesis .
  next
    case (Cons y ys)
    with hd_dropWhile [of P xs] a show ?thesis by auto
  qed
  then show "\<forall>c\<in>set xs. P c" by (simp add: dropWhile_eq_Nil_conv)
next
  assume "\<forall>c\<in>set xs. P c"
  then show "\<forall>c\<in>set (dropWhile P xs). P c" by (auto dest: set_dropWhileD)
qed

lemma trim_empty_iff: "trim body = [] \<longleftrightarrow> list_all is_space body"
proof -
  have "trim body = [] \<longleftrightarrow> (\<forall>c\<in>set (dropWhile is_space body). is_space c)"
    unfolding trim_def by (simp add: dropWhile_eq_Nil_conv)
  then show ?thesis by (simp add: dropWhile_all_iff list_all_iff)
qed





section \<open>The store: bounded windows and unavailability\<close>

lemma cache_get_logs_nonnull:
  "snd (cache_get c key) = Inr v \<Longrightarrow> v \<noteq> JNull \<Longrightarrow> fst (cache_get c key) = []"
  by (auto simp: cache_get_def split: if_splits option.splits stored.splits prod.splits)

lemma push_bounded_not_ready:
  "\<not> isReady c \<Longrightarrow> push_bounded c key item bound ttl = (c, [], Inl TypeError)"
  by (simp add: push_bounded_def cache_get_not_ready)

lemma push_bounded_command_fails:
  "isReady c \<Longrightarrow> command_fails c \<Longrightarrow>
     push_bounded c key item bound ttl =
       (c, [Log Error ''Cache get error'', Log Error ''Cache set error''], Inr ())"
  by (simp add: push_bounded_def cache_get_def cache_set_def or_else_def)

lemma push_bounded_ready:
  assumes "isReady c" "\<not> command_fails c"
      and "cache_get c key = (l, Inr v)" and "or_else v (JArr []) = JArr ms" and "0 < ttl"
  shows "push_bounded c key item bound ttl =
          (c\<lparr>redis := (redis c)(key \<mapsto>
                  (Encoded (JArr (if bound < Suc (length ms) then tl (ms @ [item]) else ms @ [item])),
                   Some ttl))\<rparr>, l, Inr ())"
  using assms
  by (simp add: push_bounded_def cache_set_def Let_def)

lemma sendMessageHistory_not_ready:
  "\<not> isReady c \<Longrightarrow> sendMessageHistory e c sock roomId = ([], Inl TypeError)"
  by (simp add: sendMessageHistory_def cache_get_not_ready)

lemma handleSendMessage_stored:
  assumes "\<not> list_all is_space body" and "roomId \<in> set (socketRooms s (socket_id sock))"
      and "storeMessage (cache s) roomId (room_message e sock roomId body messageType metadata)
             = (c1, l1, r1)"
  shows "handleSendMessage e s sock roomId (Some body) messageType metadata =
           (case r1 of
              Inl err \<Rightarrow>
                (s\<lparr>cache := c1\<rparr>,
                 l1 @ [Log Error ''Failed to send message'',
                       message_error e sock ''websocket.message_failed''])
            | Inr u \<Rightarrow>
                (s\<lparr>cache := c1,
                    connectionStats :=
                      (connectionStats s)\<lparr>messagesCount := messagesCount (connectionStats s) + 1\<rparr>\<rparr>,
                 l1 @ [IoToEmit roomId ''new_message''
                         (room_message e sock roomId body messageType metadata),
                       SocketEmit (socket_id sock) ''message_sent''
                         (JObj [(''messageId'', JStr (generateMessageId e)),
                                (''timestamp'', JStr (isoNow e))]),
                       Log Info ''Message sent'']))"
proof -
  from assms(1) have "body \<noteq> []" "trim body \<noteq> []"
    using trim_empty_iff [of body] by auto
  with assms(2,3) show ?thesis
    by (simp add: handleSendMessage_def split: sum.splits)
qed

text \<open>
  When the cache is ready and only the Redis command fails, the write is dropped with a
  log entry and the room message is still broadcast.
\<close>

lemma room_message_survives_command_failure:
  assumes "isReady (cache s)" and "command_fails (cache s)"
      and "\<not> list_all is_space body" and "roomId \<in> set (socketRooms s (socket_id sock))"
  shows "handleSendMessage e s sock roomId (Some body) messageType metadata =
           (s\<lparr>connectionStats :=
                (connectionStats s)\<lparr>messagesCount := messagesCount (connectionStats s) + 1\<rparr>\<rparr>,
            [Log Error ''Cache get error'', Log Error ''Cache set error'',
             IoToEmit roomId ''new_message'' (room_message e sock roomId body messageType metadata),
             SocketEmit (socket_id sock) ''message_sent''
               (JObj [(''messageId'', JStr (generateMessageId e)),
                      (''timestamp'', JStr (isoNow e))]),
             Log Info ''Message sent''])"
proof -
  have "storeMessage (cache s) roomId (room_message e sock roomId body messageType metadata)
          = (cache s, [Log Error ''Cache get error'', Log Error ''Cache set error''], Inr ())"
    by (simp add: storeMessage_def push_bounded_command_fails [OF assms(1,2)])
  from handleSendMessage_stored [OF assms(3,4) this] show ?thesis by simp
qed

lemma cache_alice_joined_store_down: "cache alice_joined_store_down = cache_down"
proof -
  have down: "\<not> isReady cache_down"
    by (simp add: isReady_def cache_down_def)
  have "cache (fst (handleConnection env0 (constructor cache_down adapter0) alice1)) = cache_down"
    by (simp add: handleConnection_cache constructor_def cache_set_not_ready [OF down])
  then show ?thesis
    by (simp add: alice_joined_store_down_def handleJoinRoom_cache
          updateRoomMetadata_not_ready [OF down])
qed

lemma socketRooms_alice_joined_store_down:
  "socketRooms alice_joined_store_down ''s1'' = [''s1'', ''user:alice'', ''role:user'', ''general'']"
  by (simp add: alice_joined_store_down_def handleJoinRoom_socketRooms handleConnection_socketRooms
        constructor_def adapter0_def alice1_def set_add_def)

text \<open>
  Claim C9: while the store is unavailable, appends are dropped with a log entry and
  without raising, reads give an empty sequence, and an accepted room message is still
  broadcast. \<^verbatim>\<open>cache.get\<close> and \<^verbatim>\<open>cache.set\<close> have a branch for just that
  (\<^verbatim>\<open>if (!this.isReady()) { logWarning(...); return null; }\<close>), but
  \<^verbatim>\<open>logWarning\<close> is not exported by the logger, so the branch raises. Redis is not
  connected; alice's socket is in \<^verbatim>\<open>general\<close> and she sends \<^verbatim>\<open>hello\<close>: the read,
  the append and the history replay reject, and the handler ends in its \<^verbatim>\<open>catch\<close>:
  the only event is \<^verbatim>\<open>message_error\<close> to alice, and no \<^verbatim>\<open>new_message\<close> goes to
  the room.
\<close>

theorem store_not_ready_fails_room_message:
  "\<not> isReady (cache alice_joined_store_down)
   \<and> \<not> list_all is_space ''hello''
   \<and> ''general'' \<in> set (socketRooms alice_joined_store_down (socket_id alice1))
   \<and> cache_get (cache alice_joined_store_down) ''room:general:messages'' = ([], Inl TypeError)
   \<and> cache_set (cache alice_joined_store_down) ''room:general:messages'' (JArr []) 3600
        = (cache_down, [], Inl TypeError)
   \<and> storeMessage (cache alice_joined_store_down) ''general''
        (room_message env0 alice1 ''general'' ''hello'' None None) = (cache_down, [], Inl TypeError)
   \<and> sendMessageHistory env0 (cache alice_joined_store_down) alice1 ''general'' = ([], Inl TypeError)
   \<and> handleSendMessage env0 alice_joined_store_down alice1 ''general'' (Some ''hello'') None None
        = (alice_joined_store_down,
           [Log Error ''Failed to send message'',
            SocketEmit ''s1'' ''message_error''
              (JObj [(''error'', JStr ''websocket.message_failed'')])])"
proof -
  have nr: "\<not> isReady cache_down" by (simp add: isReady_def cache_down_def)
  have nb: "\<not> list_all is_space ''hello''" by (simp add: is_space_def)
  have mem: "''general'' \<in> set (socketRooms alice_joined_store_down (socket_id alice1))"
    by (simp add: alice1_def socketRooms_alice_joined_store_down)
  have sm: "storeMessage (cache alice_joined_store_down) ''general''
              (room_message env0 alice1 ''general'' ''hello'' None None) = (cache_down, [], Inl TypeError)"
    by (simp add: cache_alice_joined_store_down storeMessage_def push_bounded_not_ready [OF nr])
  have same: "alice_joined_store_down\<lparr>cache := cache_down\<rparr> = alice_joined_store_down"
    using cache_alice_joined_store_down by (metis manager.surjective manager.update_convs(7))
  have hs: "handleSendMessage env0 alice_joined_store_down alice1 ''general'' (Some ''hello'') None None
        = (alice_joined_store_down,
           [Log Error ''Failed to send message'',
            SocketEmit ''s1'' ''message_error''
              (JObj [(''error'', JStr ''websocket.message_failed'')])])"
    using handleSendMessage_stored [OF nb mem sm]
    by (simp add: same message_error_def env0_def alice1_def)
  show ?thesis
    using nr nb mem sm hs
    by (simp add: cache_alice_joined_store_down cache_get_not_ready cache_set_not_ready
          sendMessageHistory_not_ready)
qed

lemma length_numbered: "length (numbered n) = n"
  by (simp add: numbered_def)

text \<open>
  Claim C6: when the history of a room holds 50 messages, \<^verbatim>\<open>storeMessage\<close> writes
  back 50 messages: the oldest is gone, the others keep their order and move up by one
  position, and the new message is the last. The key is written with a time-to-live of
  3600 seconds.
\<close>

theorem history_fifo_at_capacity:
  assumes "isReady c" and "\<not> command_fails c"
      and "cache_get c (''room:'' @ roomId @ '':messages'') = (l, Inr v)"
      and "or_else v (JArr []) = JArr ms"
      and "length ms = 50"
  shows "storeMessage c roomId m =
           (c\<lparr>redis := (redis c)(''room:'' @ roomId @ '':messages'' \<mapsto>
                   (Encoded (JArr (tl ms @ [m])), Some 3600))\<rparr>, [], Inr ())
       \<and> length (tl ms @ [m]) = 50
       \<and> (\<forall>i<49. (tl ms @ [m]) ! i = ms ! Suc i)
       \<and> (tl ms @ [m]) ! 49 = m"
proof -
  from assms(5) obtain x xs where ms: "ms = x # xs" "length xs = 49"
    by (cases ms) auto
  from assms(4) ms have "v \<noteq> JNull" by (auto simp: or_else_def)
  with assms(3) cache_get_logs_nonnull [of c "''room:'' @ roomId @ '':messages''" v]
  have l: "l = []" by simp
  have "storeMessage c roomId m =
           (c\<lparr>redis := (redis c)(''room:'' @ roomId @ '':messages'' \<mapsto>
                   (Encoded (JArr (tl ms @ [m])), Some 3600))\<rparr>, [], Inr ())"
    unfolding storeMessage_def
    by (subst push_bounded_ready [OF assms(1,2,3,4)]) (simp_all add: ms l)
  moreover have "\<forall>i<49. (tl ms @ [m]) ! i = ms ! Suc i"
    by (simp add: ms nth_append)
  moreover have "(tl ms @ [m]) ! 49 = m"
    by (simp add: ms nth_append)
  ultimately show ?thesis by (simp add: ms)
qed

text \<open>Claim C6 at a history of the fifty entries \<open>0, \<dots>, 49\<close>.\<close>

theorem history_fifo_at_capacity_witness:
  "isReady cache_room_full \<and> \<not> command_fails cache_room_full
   \<and> cache_get cache_room_full (''room:'' @ ''general'' @ '':messages'') = ([], Inr (JArr (numbered 50)))
   \<and> or_else (JArr (numbered 50)) (JArr []) = JArr (numbered 50)
   \<and> length (numbered 50) = 50
   \<and> storeMessage cache_room_full ''general'' (JStr ''new'') =
        (cache_room_full\<lparr>redis := (redis cache_room_full)(''room:'' @ ''general'' @ '':messages'' \<mapsto>
            (Encoded (JArr (tl (numbered 50) @ [JStr ''new''])), Some 3600))\<rparr>, [], Inr ())
   \<and> length (tl (numbered 50) @ [JStr ''new'']) = 50
   \<and> (tl (numbered 50) @ [JStr ''new'']) ! 49 = JStr ''new''"
proof -
  have r: "isReady cache_room_full" "\<not> command_fails cache_room_full"
    by (simp_all add: cache_room_full_def cache_up_def isReady_def)
  have g: "cache_get cache_room_full (''room:'' @ ''general'' @ '':messages'') = ([], Inr (JArr (numbered 50)))"
    by (simp add: cache_get_def cache_room_full_def cache_up_def isReady_def)
  have o: "or_else (JArr (numbered 50)) (JArr []) = JArr (numbered 50)"
    by (simp add: or_else_def)
  have l: "length (numbered 50) = 50" by (rule length_numbered)
  from history_fifo_at_capacity [OF r g o l, of "JStr ''new''"]
  show ?thesis using r g o l by blast
qed

text \<open>
  Claim C10: a private message to a target with a live connection is emitted to the
  target's socket, acknowledged to the sender, and also appended to the array under
  \<^verbatim>\<open>private_messages:{targetUserId}\<close>, which is written back with a time-to-live of
  \<open>86400 * 7 = 604800\<close> seconds; when the array already holds 100 or more entries its
  first entry is dropped, so that 100 stored entries stay 100. The store is available and
  the key holds an array, or nothing; \<open>l\<close> is what the read logs.
\<close>

theorem online_private_message_stored:
  assumes "map_of (connectedUsers s) targetUserId = Some targetSocket"
      and "isReady (cache s)" and "\<not> command_fails (cache s)"
      and "cache_get (cache s) (''private_messages:'' @ targetUserId) = (l, Inr v)"
      and "or_else v (JArr []) = JArr ms"
  shows "handlePrivateMessage e s sock targetUserId (Some body) messageType =
           (s\<lparr>cache := (cache s)\<lparr>redis := (redis (cache s))(''private_messages:'' @ targetUserId \<mapsto>
                 (Encoded (JArr (if 100 \<le> length ms
                        then tl ms @ [private_message e sock targetUserId body messageType]
                        else ms @ [private_message e sock targetUserId body messageType])),
                  Some 604800))\<rparr>\<rparr>,
            [SocketEmit (socket_id targetSocket) ''private_message''
               (private_message e sock targetUserId body messageType),
             SocketEmit (socket_id sock) ''private_message_sent''
               (JObj [(''messageId'', JStr (generateMessageId e)),
                      (''targetUserId'', JStr targetUserId),
                      (''timestamp'', JStr (isoNow e))])]
            @ l @ [Log Info ''Private message sent''])
       \<and> (length ms = 100 \<longrightarrow>
            length (tl ms @ [private_message e sock targetUserId body messageType]) = 100)"
proof -
  have tl: "100 \<le> length ms \<Longrightarrow> tl (ms @ [x]) = tl ms @ [x]" for x :: json
    by (cases ms) auto
  have "storePrivateMessage (cache s) targetUserId (private_message e sock targetUserId body messageType)
          = ((cache s)\<lparr>redis := (redis (cache s))(''private_messages:'' @ targetUserId \<mapsto>
                 (Encoded (JArr (if 100 \<le> length ms
                        then tl ms @ [private_message e sock targetUserId body messageType]
                        else ms @ [private_message e sock targetUserId body messageType])),
                  Some 604800))\<rparr>, l, Inr ())"
    unfolding storePrivateMessage_def
    by (subst push_bounded_ready [OF assms(2,3,4,5)]) (auto simp: tl)
  then show ?thesis using assms(1)
    by (auto simp: handlePrivateMessage_def Let_def)
qed

lemma cache_alice_online_private_full:
  "cache alice_online_private_full =
     cache_private_full\<lparr>redis := (redis cache_private_full)(''user:alice:online'' \<mapsto> (Encoded (JBool True), Some 300))\<rparr>"
  by (simp add: alice_online_private_full_def handleConnection_cache constructor_def cache_set_def
        isReady_def cache_private_full_def cache_up_def alice1_def)

text \<open>Claim C10 for bob writing to alice, whose store already holds 100 messages.\<close>

theorem online_private_message_stored_witness:
  "map_of (connectedUsers alice_online_private_full) ''alice'' = Some alice1
   \<and> isReady (cache alice_online_private_full)
   \<and> \<not> command_fails (cache alice_online_private_full)
   \<and> cache_get (cache alice_online_private_full) (''private_messages:'' @ ''alice'')
       = ([], Inr (JArr (numbered 100)))
   \<and> or_else (JArr (numbered 100)) (JArr []) = JArr (numbered 100)
   \<and> length (numbered 100) = 100
   \<and> redis (cache (fst (handlePrivateMessage env0 alice_online_private_full bob1 ''alice'' (Some ''hello'') None)))
        ''private_messages:alice''
       = Some (Encoded (JArr (tl (numbered 100) @ [private_message env0 bob1 ''alice'' ''hello'' None])),
               Some 604800)
   \<and> snd (handlePrivateMessage env0 alice_online_private_full bob1 ''alice'' (Some ''hello'') None)
       = [SocketEmit ''s1'' ''private_message'' (private_message env0 bob1 ''alice'' ''hello'' None),
          SocketEmit ''s3'' ''private_message_sent''
            (JObj [(''messageId'', JStr (generateMessageId env0)),
                   (''targetUserId'', JStr ''alice''),
                   (''timestamp'', JStr ''2023-11-14T22:13:20.000Z'')]),
          Log Info ''Private message sent'']
   \<and> length (tl (numbered 100) @ [private_message env0 bob1 ''alice'' ''hello'' None]) = 100"
proof -
  have on: "map_of (connectedUsers alice_online_private_full) ''alice'' = Some alice1"
    by (simp add: alice_online_private_full_def handleConnection_connectedUsers constructor_def
          alice1_def)
  have r: "isReady (cache alice_online_private_full)"
          "\<not> command_fails (cache alice_online_private_full)"
    by (simp_all add: cache_alice_online_private_full isReady_def cache_private_full_def cache_up_def)
  have g: "cache_get (cache alice_online_private_full) (''private_messages:'' @ ''alice'')
             = ([], Inr (JArr (numbered 100)))"
    by (simp add: cache_alice_online_private_full cache_get_def isReady_def cache_private_full_def
          cache_up_def)
  have o: "or_else (JArr (numbered 100)) (JArr []) = JArr (numbered 100)"
    by (simp add: or_else_def)
  have l: "length (numbered 100) = 100" by (rule length_numbered)
  have ids: "socket_id alice1 = ''s1''" "socket_id bob1 = ''s3''"
            "isoNow env0 = ''2023-11-14T22:13:20.000Z''"
    by (simp_all add: alice1_def bob1_def env0_def)
  from online_private_message_stored [OF on r g o, of env0 bob1 "''hello''" None]
  show ?thesis using on r g o l by (simp add: ids)
qed

end
